(* ===== verification/Prelude.thy ===== *)
theory Prelude
  imports Main
begin

text \<open>
  Shared vocabulary of the development. The scripts of the repository are
  asynchronous TypeScript: every \<open>await\<close> either yields a value or rejects
  the enclosing promise, and \<open>.catch\<close> turns a rejection back into a value.
  We model an asynchronous computation over a state \<open>'s\<close> as a function
  returning the outcome (\<open>Inl\<close> a rejection, \<open>Inr\<close> a value) together with
  the state reached, so that effects that happened before a rejection (rows
  written, clients opened, lines printed) survive it, as they do in the
  program. The theory also holds the integer ranges of the machine types
  involved (Prisma's 32-bit \<open>Int\<close>, SQLite's 64-bit integer, the safe
  integers of a JavaScript double) and decimal printing and parsing of
  integers, which JavaScript's \<open>String\<close> and \<open>Number\<close> and SQLite share.
\<close>

section \<open>Asynchronous computations with rejection\<close>

type_synonym ('s, 'e, 'a) exn = "'s \<Rightarrow> ('e + 'a) \<times> 's"

named_theorems exn_simps "unfolding rules of the rejection monad"

definition returnE :: "'a \<Rightarrow> ('s, 'e, 'a) exn" where
  [exn_simps]: "returnE a = (\<lambda>s. (Inr a, s))"

definition throwE :: "'e \<Rightarrow> ('s, 'e, 'a) exn" where
  [exn_simps]: "throwE e = (\<lambda>s. (Inl e, s))"

text \<open>\<open>await m\<close> followed by the rest of the function body.\<close>

definition bindE :: "('s, 'e, 'a) exn \<Rightarrow> ('a \<Rightarrow> ('s, 'e, 'b) exn) \<Rightarrow> ('s, 'e, 'b) exn" where
  [exn_simps]: "bindE m f = (\<lambda>s. case m s of (Inl e, s') \<Rightarrow> (Inl e, s') | (Inr a, s') \<Rightarrow> f a s')"

definition thenE :: "('s, 'e, 'a) exn \<Rightarrow> ('s, 'e, 'b) exn \<Rightarrow> ('s, 'e, 'b) exn" where
  [exn_simps]: "thenE m n = bindE m (\<lambda>_. n)"

text \<open>\<open>p.catch(h)\<close>: a rejection of \<open>p\<close> is handed to \<open>h\<close>.\<close>

definition catchE :: "('s, 'e, 'a) exn \<Rightarrow> ('e \<Rightarrow> ('s, 'e, 'a) exn) \<Rightarrow> ('s, 'e, 'a) exn" where
  [exn_simps]: "catchE m h = (\<lambda>s. case m s of (Inl e, s') \<Rightarrow> h e s' | (Inr a, s') \<Rightarrow> (Inr a, s'))"

definition modifyE :: "('s \<Rightarrow> 's) \<Rightarrow> ('s, 'e, unit) exn" where
  [exn_simps]: "modifyE f = (\<lambda>s. (Inr (), f s))"

text \<open>Lifting a partial JavaScript operation: \<open>None\<close> throws \<open>e\<close>.\<close>

definition liftE :: "'e \<Rightarrow> 'a option \<Rightarrow> ('s, 'e, 'a) exn" where
  [exn_simps]: "liftE e x = (case x of None \<Rightarrow> throwE e | Some a \<Rightarrow> returnE a)"

subsection \<open>Laws\<close>

lemma bindE_returnE [simp]: "bindE (returnE a) f = f a"
  by (simp add: exn_simps)

lemma returnE_bindE [simp]: "bindE m returnE = m"
  by (rule ext) (simp add: exn_simps split: prod.splits sum.splits)

lemma bindE_assoc [simp]: "bindE (bindE m f) g = bindE m (\<lambda>a. bindE (f a) g)"
  by (rule ext) (simp add: exn_simps split: prod.splits sum.splits)

lemma bindE_throwE [simp]: "bindE (throwE e) f = throwE e"
  by (simp add: exn_simps)

text \<open>Running a sequence step by step: the two outcomes of the first step.\<close>

lemma bindE_Inr [simp]: "m s = (Inr a, s') \<Longrightarrow> bindE m f s = f a s'"
  by (simp add: bindE_def)

lemma bindE_Inl [simp]: "m s = (Inl e, s') \<Longrightarrow> bindE m f s = (Inl e, s')"
  by (simp add: bindE_def)

lemma catchE_Inr [simp]: "m s = (Inr a, s') \<Longrightarrow> catchE m h s = (Inr a, s')"
  by (simp add: catchE_def)

lemma catchE_Inl [simp]: "m s = (Inl e, s') \<Longrightarrow> catchE m h s = h e s'"
  by (simp add: catchE_def)

lemma thenE_run: "thenE m n s = (case m s of (Inl e, s') \<Rightarrow> (Inl e, s') | (Inr _, s') \<Rightarrow> n s')"
  by (simp add: thenE_def bindE_def)

text \<open>A property of the state kept by every step is kept by their sequence.\<close>

definition keeps :: "('s \<Rightarrow> bool) \<Rightarrow> ('s, 'e, 'a) exn \<Rightarrow> bool" where
  "keeps P m \<longleftrightarrow> (\<forall>s. P s \<longrightarrow> P (snd (m s)))"

named_theorems keeps_intros "steps that keep a state property"

lemma keeps_returnE [keeps_intros]: "keeps P (returnE a)"
  by (simp add: keeps_def returnE_def)

lemma keeps_throwE [keeps_intros]: "keeps P (throwE e)"
  by (simp add: keeps_def throwE_def)

lemma keeps_bindE [keeps_intros]:
  "keeps P m \<Longrightarrow> (\<And>a. keeps P (f a)) \<Longrightarrow> keeps P (bindE m f)"
  by (auto simp: keeps_def bindE_def split: prod.splits sum.splits)

lemma keeps_thenE [keeps_intros]: "keeps P m \<Longrightarrow> keeps P n \<Longrightarrow> keeps P (thenE m n)"
  by (simp add: thenE_def keeps_bindE)

lemma keeps_catchE [keeps_intros]:
  "keeps P m \<Longrightarrow> (\<And>e. keeps P (h e)) \<Longrightarrow> keeps P (catchE m h)"
  by (auto simp: keeps_def catchE_def split: prod.splits sum.splits)

lemma keeps_liftE [keeps_intros]: "keeps P (liftE e x)"
  by (simp add: liftE_def keeps_returnE keeps_throwE split: option.splits)

section \<open>Integer ranges of the machine types\<close>

definition in_i32 :: "int \<Rightarrow> bool" where
  "in_i32 x \<longleftrightarrow> - (2 ^ 31) \<le> x \<and> x < 2 ^ 31"

definition in_i64 :: "int \<Rightarrow> bool" where
  "in_i64 x \<longleftrightarrow> - (2 ^ 63) \<le> x \<and> x < 2 ^ 63"

text \<open>Integers a JavaScript number (an IEEE double) holds exactly.\<close>

definition safe_int :: "int \<Rightarrow> bool" where
  "safe_int x \<longleftrightarrow> \<bar>x\<bar> \<le> 2 ^ 53"

section \<open>Strings\<close>

text \<open>\<open>parts.join(sep)\<close>.\<close>

fun join_with :: "string \<Rightarrow> string list \<Rightarrow> string" where
  "join_with sep [] = []"
| "join_with sep [x] = x"
| "join_with sep (x # xs) = x @ sep @ join_with sep xs"

subsection \<open>Decimal digits\<close>

definition digit_char :: "nat \<Rightarrow> char" where
  "digit_char d = char_of (48 + d)"

fun show_nat :: "nat \<Rightarrow> string" where
  "show_nat n = (if n < 10 then [digit_char n] else show_nat (n div 10) @ [digit_char (n mod 10)])"

declare show_nat.simps [simp del]

definition show_int :: "int \<Rightarrow> string" where
  "show_int i = (if i < 0 then CHR ''-'' # show_nat (nat (- i)) else show_nat (nat i))"

definition is_digit :: "char \<Rightarrow> bool" where
  "is_digit c \<longleftrightarrow> (48::nat) \<le> of_char c \<and> (of_char c :: nat) < 58"

definition digit_val :: "char \<Rightarrow> nat" where
  "digit_val c = of_char c - 48"

text \<open>A non-empty run of decimal digits, leading zeros allowed.\<close>

definition parse_nat :: "string \<Rightarrow> nat option" where
  "parse_nat s = (if s \<noteq> [] \<and> list_all is_digit s
                  then Some (foldl (\<lambda>n c. 10 * n + digit_val c) 0 s) else None)"

definition parse_int :: "string \<Rightarrow> int option" where
  "parse_int s = (case s of
      c # ds \<Rightarrow> (if c = CHR ''-'' then map_option (\<lambda>n. - int n) (parse_nat ds)
                 else if c = CHR ''+'' then map_option int (parse_nat ds)
                 else map_option int (parse_nat s))
    | [] \<Rightarrow> None)"

lemma digit_char_numerals [simp]:
  "digit_char 0 = CHR ''0''" "digit_char 1 = CHR ''1''" "digit_char (Suc 0) = CHR ''1''" "digit_char 2 = CHR ''2''"
  "digit_char 3 = CHR ''3''" "digit_char 4 = CHR ''4''" "digit_char 5 = CHR ''5''"
  "digit_char 6 = CHR ''6''" "digit_char 7 = CHR ''7''" "digit_char 8 = CHR ''8''"
  "digit_char 9 = CHR ''9''"
  by code_simp+

lemma digit_char_is_digit: "d < 10 \<Longrightarrow> is_digit (digit_char d)"
  by (simp add: digit_char_def is_digit_def)

lemma digit_val_digit_char [simp]: "d < 10 \<Longrightarrow> digit_val (digit_char d) = d"
  by (simp add: digit_char_def digit_val_def)

lemma show_nat_not_Nil [simp]: "show_nat n \<noteq> []"
  by (subst show_nat.simps) simp

lemma show_nat_digits: "list_all is_digit (show_nat n)"
proof (induction n rule: show_nat.induct)
  case (1 n)
  then show ?case
    by (subst show_nat.simps) (simp add: digit_char_is_digit)
qed

lemma show_nat_value: "foldl (\<lambda>n c. 10 * n + digit_val c) 0 (show_nat n) = n"
proof (induction n rule: show_nat.induct)
  case (1 n)
  then show ?case
    by (subst show_nat.simps) simp
qed

lemma show_nat_head: "hd (show_nat n) \<noteq> CHR ''-'' \<and> hd (show_nat n) \<noteq> CHR ''+''"
  using show_nat_digits [of n]
  by (cases "show_nat n") (auto simp: is_digit_def)

lemma parse_nat_show_nat [simp]: "parse_nat (show_nat n) = Some n"
  by (simp add: parse_nat_def show_nat_digits show_nat_value)

lemma parse_int_unsigned:
  "s \<noteq> [] \<Longrightarrow> hd s \<noteq> CHR ''-'' \<Longrightarrow> hd s \<noteq> CHR ''+'' \<Longrightarrow> parse_int s = map_option int (parse_nat s)"
  by (cases s) (auto simp: parse_int_def)

text \<open>Printing an integer in decimal and reading it back gives the integer.\<close>

lemma parse_int_show_int [simp]: "parse_int (show_int i) = Some i"
proof (cases "i < 0")
  case True
  then show ?thesis by (simp add: show_int_def parse_int_def)
next
  case False
  then show ?thesis
    using show_nat_head [of "nat i"] by (simp add: show_int_def parse_int_unsigned)
qed

end
