(* ===== verification/Database.thy ===== *)
theory Database
  imports Prelude
begin

text \<open>
  The database the scripts talk to: the table \<open>simple\<close> of the Prisma schema
  (a \<open>name\<close> text column and a nullable integer \<open>age\<close>, plus whatever other
  nullable columns the schema declares) and the part of SQLite's SQL that the
  scripts' statements use: \<open>SUM\<close> with SQLite's 64-bit overflow check,
  \<open>coalesce\<close>, unquoted identifiers, and double-quoted tokens, which SQLite
  reads as an identifier when a column of that name exists and as a string
  literal otherwise. Names are resolved when a statement is prepared, before
  any row is read, so a wrong column is an error even on an empty table.
  Every request the Prisma client sends is a value of \<open>req\<close>, and \<open>serve\<close>
  is the database's step on it.
\<close>

section \<open>Values, rows and the table\<close>

datatype sval = SNull | SInt int | SText string

record simple =
  name :: string
  age :: "int option"

record db =
  rows :: "simple list"
  extra_cols :: "string list"

definition sval_of_opt :: "int option \<Rightarrow> sval" where
  "sval_of_opt x = (case x of None \<Rightarrow> SNull | Some n \<Rightarrow> SInt n)"

text \<open>SQLite compares identifiers without regard to ASCII case.\<close>

definition lower_char :: "char \<Rightarrow> char" where
  "lower_char c = (if (65::nat) \<le> of_char c \<and> (of_char c :: nat) \<le> 90
                   then char_of (of_char c + (32::nat)) else c)"

definition same_ident :: "string \<Rightarrow> string \<Rightarrow> bool" where
  "same_ident a b \<longleftrightarrow> map lower_char a = map lower_char b"

definition table_name :: string where
  "table_name = ''simple''"

definition columns :: "db \<Rightarrow> string list" where
  "columns d = ''name'' # ''age'' # extra_cols d"

definition is_column :: "db \<Rightarrow> string \<Rightarrow> bool" where
  "is_column d c \<longleftrightarrow> list_ex (same_ident c) (columns d)"

text \<open>Prisma names a column after its field: a letter, then letters, digits
  and underscores. The schema's further columns are such names.\<close>

definition is_letter :: "char \<Rightarrow> bool" where
  "is_letter c \<longleftrightarrow> (let n = (of_char c :: nat) in (65 \<le> n \<and> n \<le> 90) \<or> (97 \<le> n \<and> n \<le> 122))"

definition prisma_ident :: "string \<Rightarrow> bool" where
  "prisma_ident c \<longleftrightarrow> c \<noteq> [] \<and> is_letter (hd c) \<and>
     list_all (\<lambda>x. is_letter x \<or> is_digit x \<or> x = CHR ''_'') c"

definition schema_ok :: "db \<Rightarrow> bool" where
  "schema_ok d \<longleftrightarrow> list_all prisma_ident (extra_cols d)"

text \<open>The value of a column in a row of \<open>simple\<close>; the seeder sets only
  \<open>name\<close> and \<open>age\<close>, so every other column holds NULL.\<close>

definition col_value :: "simple \<Rightarrow> string \<Rightarrow> sval" where
  "col_value r c = (if same_ident c ''name'' then SText (name r)
                    else if same_ident c ''age'' then sval_of_opt (age r)
                    else SNull)"

section \<open>Statements\<close>

datatype sexpr = Ident string | DQuoted string | Sum sexpr | Coalesce sexpr sexpr

record select_stmt =
  sel :: sexpr
  sel_alias :: string
  from_table :: "string option"

datatype db_error =
    NoSuchTable string
  | NoSuchColumn string
  | MisuseOfAggregate
  | IntegerOverflow
  | Unsupported \<comment> \<open>SUM over text, which SQLite turns into a REAL: outside the model\<close>

primrec has_agg :: "sexpr \<Rightarrow> bool" where
  "has_agg (Ident c) = False"
| "has_agg (DQuoted s) = False"
| "has_agg (Sum e) = True"
| "has_agg (Coalesce a b) = (has_agg a \<or> has_agg b)"

text \<open>Name resolution at prepare time, in the scope \<open>cs\<close> of visible columns.\<close>

primrec resolve :: "string list \<Rightarrow> sexpr \<Rightarrow> db_error option" where
  "resolve cs (Ident c) = (if list_ex (same_ident c) cs then None else Some (NoSuchColumn c))"
| "resolve cs (DQuoted s) = None"
| "resolve cs (Sum e) = (if has_agg e then Some MisuseOfAggregate else resolve cs e)"
| "resolve cs (Coalesce a b) = (case resolve cs a of None \<Rightarrow> resolve cs b | Some err \<Rightarrow> Some err)"

text \<open>A scalar expression on one row, given as the row's column values.\<close>

primrec ev_row :: "string list \<Rightarrow> (string \<Rightarrow> sval) \<Rightarrow> sexpr \<Rightarrow> sval" where
  "ev_row cs r (Ident c) = r c"
| "ev_row cs r (DQuoted s) = (if list_ex (same_ident s) cs then r s else SText s)"
| "ev_row cs r (Sum e) = SNull" \<comment> \<open>aggregates are evaluated by \<open>ev_agg\<close> only\<close>
| "ev_row cs r (Coalesce a b) = (case ev_row cs r a of SNull \<Rightarrow> ev_row cs r b | v \<Rightarrow> v)"

text \<open>
  SQLite's \<open>sum()\<close>: NULLs are skipped; no non-NULL input gives NULL; integer
  inputs are added with a 64-bit overflow check, and an overflow at any
  point makes the statement fail with "integer overflow".
\<close>

fun sql_sum_acc :: "bool \<Rightarrow> int \<Rightarrow> sval list \<Rightarrow> db_error + sval" where
  "sql_sum_acc seen acc [] = Inr (if seen then SInt acc else SNull)"
| "sql_sum_acc seen acc (SNull # vs) = sql_sum_acc seen acc vs"
| "sql_sum_acc seen acc (SInt n # vs) =
     (if in_i64 (acc + n) then sql_sum_acc True (acc + n) vs else Inl IntegerOverflow)"
| "sql_sum_acc seen acc (SText s # vs) = Inl Unsupported"

definition sql_sum :: "sval list \<Rightarrow> db_error + sval" where
  "sql_sum vs = sql_sum_acc False 0 vs"

text \<open>
  An aggregate query over the rows \<open>rs\<close>: every aggregate is computed over all
  rows (so its error is raised even where \<open>coalesce\<close> would not need its
  value); a bare column takes its value from the last row, NULL on no rows.
\<close>

fun ev_agg :: "string list \<Rightarrow> (string \<Rightarrow> sval) list \<Rightarrow> sexpr \<Rightarrow> db_error + sval" where
  "ev_agg cs rs (Sum e) = sql_sum (map (\<lambda>r. ev_row cs r e) rs)"
| "ev_agg cs rs (Coalesce a b) =
     (case ev_agg cs rs a of
        Inl err \<Rightarrow> Inl err
      | Inr va \<Rightarrow> (case ev_agg cs rs b of
                    Inl err \<Rightarrow> Inl err
                  | Inr vb \<Rightarrow> Inr (if va = SNull then vb else va)))"
| "ev_agg cs rs (Ident c) = Inr (if rs = [] then SNull else last rs c)"
| "ev_agg cs rs (DQuoted s) = Inr (ev_row cs (if rs = [] then (\<lambda>_. SNull) else last rs) (DQuoted s))"

text \<open>The columns in scope and the rows read: a statement without FROM reads
  one row with no columns.\<close>

definition source :: "db \<Rightarrow> select_stmt \<Rightarrow> db_error + (string list \<times> (string \<Rightarrow> sval) list)" where
  "source d q = (case from_table q of
      None \<Rightarrow> Inr ([], [\<lambda>_. SNull])
    | Some t \<Rightarrow> (if same_ident t table_name then Inr (columns d, map col_value (rows d))
                else Inl (NoSuchTable t)))"

type_synonym result_row = "(string \<times> sval) list"

definition run_select :: "db \<Rightarrow> select_stmt \<Rightarrow> db_error + result_row list" where
  "run_select d q =
     (case source d q of
        Inl err \<Rightarrow> Inl err
      | Inr (cs, rs) \<Rightarrow>
          (case resolve cs (sel q) of
             Some err \<Rightarrow> Inl err
           | None \<Rightarrow>
               (if has_agg (sel q)
                then (case ev_agg cs rs (sel q) of
                        Inl err \<Rightarrow> Inl err
                      | Inr v \<Rightarrow> Inr [[(sel_alias q, v)]])
                else Inr (map (\<lambda>r. [(sel_alias q, ev_row cs r (sel q))]) rs))))"

section \<open>Requests\<close>

text \<open>The statement Prisma's \<open>aggregate({_sum: {age: true}})\<close> sends.\<close>

definition agg_sum_age_stmt :: select_stmt where
  "agg_sum_age_stmt = \<lparr>sel = Sum (Ident ''age''), sel_alias = ''_sum_age'', from_table = Some ''simple''\<rparr>"

datatype req = DeleteMany | Create simple | AggregateSumAge | QueryRaw select_stmt

datatype reply = Count nat | Created simple | Rows "result_row list"

fun serve :: "req \<Rightarrow> db \<Rightarrow> db_error + (reply \<times> db)" where
  "serve DeleteMany d = Inr (Count (length (rows d)), d\<lparr>rows := []\<rparr>)"
| "serve (Create r) d = Inr (Created r, d\<lparr>rows := rows d @ [r]\<rparr>)"
| "serve AggregateSumAge d =
     (case run_select d agg_sum_age_stmt of Inl err \<Rightarrow> Inl err | Inr t \<Rightarrow> Inr (Rows t, d))"
| "serve (QueryRaw q) d =
     (case run_select d q of Inl err \<Rightarrow> Inl err | Inr t \<Rightarrow> Inr (Rows t, d))"

section \<open>The aggregate against its specification\<close>

text \<open>
  The abstract contract of the sum aggregate (spec, data model): absent when
  no row has a value, otherwise the sum of the values present.
\<close>

definition opt_val :: "int option \<Rightarrow> int" where
  "opt_val x = (case x of None \<Rightarrow> 0 | Some n \<Rightarrow> n)"

definition sum_spec :: "int option list \<Rightarrow> int option" where
  "sum_spec xs = (if list_all (\<lambda>x. x = None) xs then None else Some (sum_list (map opt_val xs)))"

text \<open>A value of Prisma's nullable 32-bit \<open>Int?\<close>; every age stored is one.\<close>

definition opt_i32 :: "int option \<Rightarrow> bool" where
  "opt_i32 x = (case x of None \<Rightarrow> True | Some n \<Rightarrow> in_i32 n)"

definition wf_db :: "db \<Rightarrow> bool" where
  "wf_db d \<longleftrightarrow> list_all (\<lambda>r. opt_i32 (age r)) (rows d)"

lemma sval_of_opt_simps [simp]: "sval_of_opt None = SNull" "sval_of_opt (Some n) = SInt n"
  by (simp_all add: sval_of_opt_def)

lemma opt_val_simps [simp]: "opt_val None = 0" "opt_val (Some n) = n"
  by (simp_all add: opt_val_def)

lemma sql_sum_acc_bounded:
  assumes "list_all (pred_option (\<lambda>n. \<bar>n\<bar> \<le> 2 ^ 31)) xs"
    and "\<bar>acc\<bar> \<le> int k * 2 ^ 31" and "k + length xs < 2 ^ 32"
  shows "sql_sum_acc seen acc (map sval_of_opt xs) =
           Inr (if seen \<or> \<not> list_all (\<lambda>x. x = None) xs
                then SInt (acc + sum_list (map opt_val xs)) else SNull)"
  using assms
proof (induction xs arbitrary: seen acc k)
  case Nil
  then show ?case by simp
next
  case (Cons x xs)
  show ?case
  proof (cases x)
    case None
    with Cons show ?thesis by simp
  next
    case (Some n)
    with Cons.prems have n: "\<bar>n\<bar> \<le> 2 ^ 31" by simp
    have k: "int (Suc k) \<le> 2 ^ 32 - 1" using Cons.prems(3) by simp
    have acc': "\<bar>acc + n\<bar> \<le> int (Suc k) * 2 ^ 31"
      using Cons.prems(2) n by (simp add: algebra_simps)
    have "int (Suc k) * 2 ^ 31 \<le> (2 ^ 32 - 1) * (2 ^ 31 :: int)"
      using k by (intro mult_right_mono) simp_all
    with acc' have "in_i64 (acc + n)" by (simp add: in_i64_def abs_le_iff)
    moreover have "sql_sum_acc True (acc + n) (map sval_of_opt xs) =
           Inr (SInt (acc + n + sum_list (map opt_val xs)))"
      using Cons.IH [of "acc + n" "Suc k" True] Cons.prems acc' Some by simp
    ultimately show ?thesis using Some by (simp add: algebra_simps)
  qed
qed

lemma opt_i32_abs: "opt_i32 x \<Longrightarrow> pred_option (\<lambda>n. \<bar>n\<bar> \<le> 2 ^ 31) x"
  by (cases x) (auto simp: opt_i32_def in_i32_def)

lemma sql_sum_spec:
  assumes "list_all opt_i32 xs" and "length xs < 2 ^ 32"
  shows "sql_sum (map sval_of_opt xs) = Inr (sval_of_opt (sum_spec xs))"
proof -
  have "list_all (pred_option (\<lambda>n. \<bar>n\<bar> \<le> 2 ^ 31)) xs"
    using assms(1) unfolding list_all_iff by (blast intro: opt_i32_abs)
  from sql_sum_acc_bounded [OF this, of 0 0 False] assms(2) show ?thesis
    by (simp add: sql_sum_def sum_spec_def)
qed

lemma same_ident_refl [simp]: "same_ident a a"
  by (simp add: same_ident_def)

lemma age_in_columns: "list_ex (same_ident ''age'') (columns d)"
  by (simp add: columns_def)

lemma col_value_age [simp]: "col_value r ''age'' = sval_of_opt (age r)"
  by (simp add: col_value_def same_ident_def lower_char_def)

lemma run_select_agg_sum_age:
  "run_select d agg_sum_age_stmt =
     map_sum id (\<lambda>v. [[(''_sum_age'', v)]]) (sql_sum (map (sval_of_opt \<circ> age) (rows d)))"
  by (simp add: run_select_def agg_sum_age_stmt_def source_def table_name_def age_in_columns
      comp_def split: sum.splits)

section \<open>Statements of the shape \<open>coalesce(SUM(c), "s")\<close>\<close>

lemma same_ident_Nil [simp]: "same_ident [] c \<longleftrightarrow> c = []"
  by (auto simp: same_ident_def)

lemma is_column_age: "is_column d ''age''"
  by (simp add: is_column_def columns_def)

lemma is_column_rows [simp]: "is_column (d\<lparr>rows := x\<rparr>) c = is_column d c"
  by (simp add: is_column_def columns_def)

lemma schema_ok_rows [simp]: "schema_ok (d\<lparr>rows := x\<rparr>) = schema_ok d"
  by (simp add: schema_ok_def)

text \<open>No schema column is named by the empty identifier \<open>""\<close>.\<close>

lemma schema_ok_not_Nil: "schema_ok d \<Longrightarrow> \<not> is_column d []"
  unfolding is_column_def columns_def
  by (auto simp: schema_ok_def prisma_ident_def list_all_iff list_ex_iff same_ident_def lower_char_def)

lemma sql_sum_all_null: "sql_sum (map (\<lambda>_. SNull) xs) = Inr SNull"
proof -
  have "sql_sum_acc False 0 (map (\<lambda>_. SNull) xs) = Inr SNull" by (induction xs) simp_all
  then show ?thesis by (simp add: sql_sum_def)
qed

text \<open>The sum over a column of optional integers is NULL exactly when no
  value is present, and never text.\<close>

lemma sql_sum_acc_opt:
  "sql_sum_acc seen acc (map sval_of_opt xs) = Inr v \<Longrightarrow>
   (v = SNull \<longleftrightarrow> \<not> seen \<and> list_all (\<lambda>x. x = None) xs) \<and> (\<forall>s. v \<noteq> SText s)"
proof (induction xs arbitrary: seen acc)
  case Nil
  then show ?case by (auto split: if_splits)
next
  case (Cons x xs)
  then show ?case by (cases x) (auto split: if_splits)
qed

lemma sql_sum_ages:
  "sql_sum (map (sval_of_opt \<circ> age) rs) = Inr v \<Longrightarrow>
   (v = SNull \<longleftrightarrow> list_all (\<lambda>r. age r = None) rs) \<and> (\<forall>s. v \<noteq> SText s)"
  using sql_sum_acc_opt [of False 0 "map age rs" v] by (simp add: sql_sum_def list_all_iff)

text \<open>Whenever \<open>SUM\<close> succeeds over a column of optional integers, its value
  is the abstract sum: no bound is needed, as an overflow makes it fail.\<close>

lemma sql_sum_acc_exact:
  "sql_sum_acc seen acc (map sval_of_opt xs) = Inr v \<Longrightarrow>
   v = (if seen \<or> \<not> list_all (\<lambda>x. x = None) xs then SInt (acc + sum_list (map opt_val xs)) else SNull)"
proof (induction xs arbitrary: seen acc)
  case Nil
  then show ?case by auto
next
  case (Cons x xs)
  show ?case
  proof (cases x)
    case None
    then show ?thesis using Cons.prems Cons.IH [of seen acc] by auto
  next
    case (Some a)
    then show ?thesis using Cons.prems Cons.IH [of True "acc + a"] by (auto split: if_splits)
  qed
qed

lemma sql_sum_exact: "sql_sum (map sval_of_opt xs) = Inr v \<Longrightarrow> v = sval_of_opt (sum_spec xs)"
  using sql_sum_acc_exact [of False 0 xs v] by (simp add: sql_sum_def sum_spec_def)

text \<open>\<open>SUM\<close> over optional integers fails exactly when a running sum of the
  values leaves 64 bits, and then with the overflow error.\<close>

lemma ex_le_Suc: "(\<exists>k \<le> Suc m. P k) \<longleftrightarrow> P 0 \<or> (\<exists>k \<le> m. P (Suc k))"
  by (metis Suc_le_mono le0 not0_implies_Suc)

lemma sql_sum_acc_overflow:
  "in_i64 acc \<Longrightarrow>
   isl (sql_sum_acc seen acc (map sval_of_opt xs)) \<longleftrightarrow>
   (\<exists>k \<le> length xs. \<not> in_i64 (acc + sum_list (map opt_val (take k xs))))"
proof (induction xs arbitrary: seen acc)
  case Nil
  then show ?case by simp
next
  case (Cons x xs)
  show ?case
  proof (cases x)
    case None
    then show ?thesis using Cons.prems Cons.IH [of acc seen] by (simp add: ex_le_Suc)
  next
    case (Some n)
    show ?thesis
    proof (cases "in_i64 (acc + n)")
      case True
      then show ?thesis using Some Cons.prems Cons.IH [of "acc + n" True]
        by (simp add: ex_le_Suc add.assoc)
    next
      case False
      then show ?thesis using Some Cons.prems
        by (simp add: ex_le_Suc) (metis le0 take_0 list.simps(8) sum_list.Nil add_0_right)
    qed
  qed
qed

lemma sql_sum_acc_error: "isl (sql_sum_acc seen acc (map sval_of_opt xs)) \<Longrightarrow>
   sql_sum_acc seen acc (map sval_of_opt xs) = Inl IntegerOverflow"
proof (induction xs arbitrary: seen acc)
  case (Cons x xs)
  then show ?case by (cases x) auto
qed simp

text \<open>A column other than \<open>c\<close> is rejected at prepare time, on any table.\<close>

lemma run_select_coalesce_no_col:
  "\<not> is_column d c \<Longrightarrow>
   run_select d \<lparr>sel = Coalesce (Sum (Ident c)) (DQuoted s), sel_alias = a, from_table = Some ''simple''\<rparr> =
     Inl (NoSuchColumn c)"
  by (simp add: run_select_def source_def table_name_def is_column_def)

lemma run_select_coalesce_sum:
  "is_column d c \<Longrightarrow> \<not> is_column d s \<Longrightarrow>
   run_select d \<lparr>sel = Coalesce (Sum (Ident c)) (DQuoted s), sel_alias = a, from_table = Some ''simple''\<rparr> =
     map_sum id (\<lambda>v. [[(a, if v = SNull then SText s else v)]]) (sql_sum (map (\<lambda>r. col_value r c) (rows d)))"
  by (auto simp: run_select_def source_def table_name_def is_column_def comp_def split: sum.splits)

section \<open>Properties of the database model\<close>

text \<open>
  C3. The SQL that Prisma's \<open>aggregate({_sum: {age: true}})\<close> sends
  implements the abstract AggregateResult on every table of 32-bit ages with
  fewer than \<open>2^32\<close> rows: one row, NULL when no row has an age, otherwise
  the sum of the ages present (NULLs are skipped, not counted as 0), and
  never the overflow error.
\<close>

theorem aggregate_refines_spec:
  assumes "wf_db d" and "length (rows d) < 2 ^ 32"
  shows "run_select d agg_sum_age_stmt = Inr [[(''_sum_age'', sval_of_opt (sum_spec (map age (rows d))))]]"
proof -
  have "list_all opt_i32 (map age (rows d))"
    using assms(1) by (simp add: wf_db_def list_all_iff)
  from sql_sum_spec [OF this] assms(2) show ?thesis
    by (simp add: run_select_agg_sum_age comp_def)
qed

theorem aggregate_refines_spec_witness:
  "wf_db \<lparr>rows = [\<lparr>name = ''a'', age = Some 1\<rparr>, \<lparr>name = ''b'', age = None\<rparr>], extra_cols = []\<rparr> \<and>
   length (rows \<lparr>rows = [\<lparr>name = ''a'', age = Some 1\<rparr>, \<lparr>name = ''b'', age = None\<rparr>], extra_cols = []\<rparr>) < 2 ^ 32 \<and>
   run_select \<lparr>rows = [\<lparr>name = ''a'', age = Some 1\<rparr>, \<lparr>name = ''b'', age = None\<rparr>], extra_cols = []\<rparr>
     agg_sum_age_stmt = Inr [[(''_sum_age'', SInt 1)]]"
proof -
  have h: "wf_db \<lparr>rows = [\<lparr>name = ''a'', age = Some 1\<rparr>, \<lparr>name = ''b'', age = None\<rparr>], extra_cols = []\<rparr>"
    "length (rows \<lparr>rows = [\<lparr>name = ''a'', age = Some 1\<rparr>, \<lparr>name = ''b'', age = None\<rparr>], extra_cols = []\<rparr>) < 2 ^ 32"
    by (simp_all add: wf_db_def opt_i32_def in_i32_def)
  show ?thesis using h aggregate_refines_spec [OF h] by (simp add: sum_spec_def)
qed

lemma sum_opt_val_bound:
  "list_all opt_i32 xs \<Longrightarrow> \<bar>sum_list (map opt_val xs)\<bar> \<le> int (length xs) * 2 ^ 31"
proof (induction xs)
  case Nil
  then show ?case by simp
next
  case (Cons x xs)
  then have "\<bar>opt_val x\<bar> \<le> 2 ^ 31" by (cases x) (auto simp: opt_i32_def in_i32_def)
  with Cons show ?case by (simp add: algebra_simps)
qed

text \<open>A successful statement with an aggregate returns exactly one row.\<close>

lemma agg_one_row: "has_agg (sel q) \<Longrightarrow> run_select d q = Inr t \<Longrightarrow> length t = 1"
  by (auto simp: run_select_def split: sum.splits option.splits if_splits prod.splits)

end
