(* ===== verification/Js_Values.thy ===== *)
theory Js_Values
  imports Prelude
begin

text \<open>
  The JavaScript values and operators the scripts apply to query results:
  \<open>typeof\<close>, the conversion a template literal \<open>${v}\<close> performs
  (\<open>ToString\<close>), \<open>Number(v)\<close>, the \<open>+\<close> operator (string concatenation
  as soon as one operand is a string after \<open>ToPrimitive\<close>, numeric addition
  otherwise), \<open>JSON.stringify\<close>, array indexing and property access (which
  throws a \<open>TypeError\<close> on \<open>undefined\<close> and \<open>null\<close>).
  Numbers are the integer doubles and \<open>NaN\<close>: every number the scripts
  handle is an integer sum of 32-bit values, and \<open>Prelude.safe_int\<close> bounds
  where a double holds such a sum exactly. \<open>Number\<close> on a string reads
  ASCII-whitespace-trimmed decimal integers; strings in fraction, exponent,
  hexadecimal or \<open>Infinity\<close> syntax are outside this integer model (the
  scripts never convert a string).
\<close>

datatype jsval =
    JUndef
  | JNull
  | JNum int
  | JNaN
  | JStr string
  | JObj "(string \<times> jsval) list"

definition js_typeof :: "jsval \<Rightarrow> string" where
  "js_typeof v = (case v of
      JUndef \<Rightarrow> ''undefined'' | JNull \<Rightarrow> ''object'' | JNum _ \<Rightarrow> ''number''
    | JNaN \<Rightarrow> ''number'' | JStr _ \<Rightarrow> ''string'' | JObj _ \<Rightarrow> ''object'')"

text \<open>\<open>ToString\<close>, as a template literal applies it.\<close>

definition js_String :: "jsval \<Rightarrow> string" where
  "js_String v = (case v of
      JUndef \<Rightarrow> ''undefined'' | JNull \<Rightarrow> ''null'' | JNum n \<Rightarrow> show_int n
    | JNaN \<Rightarrow> ''NaN'' | JStr s \<Rightarrow> s | JObj _ \<Rightarrow> ''[object Object]'')"

section \<open>Number\<close>

definition is_js_space :: "char \<Rightarrow> bool" where
  "is_js_space c \<longleftrightarrow> of_char c \<in> {9, 10, 11, 12, 13, 32 :: nat}"

definition js_trim :: "string \<Rightarrow> string" where
  "js_trim s = rev (dropWhile is_js_space (rev (dropWhile is_js_space s)))"

definition str_to_number :: "string \<Rightarrow> jsval" where
  "str_to_number s = (let t = js_trim s in
      if t = [] then JNum 0
      else (case parse_int t of Some n \<Rightarrow> JNum n | None \<Rightarrow> JNaN))"

definition js_Number :: "jsval \<Rightarrow> jsval" where
  "js_Number v = (case v of
      JUndef \<Rightarrow> JNaN | JNull \<Rightarrow> JNum 0 | JNum n \<Rightarrow> JNum n | JNaN \<Rightarrow> JNaN
    | JStr s \<Rightarrow> str_to_number s | JObj _ \<Rightarrow> JNaN)"

section \<open>The + operator\<close>

definition to_primitive :: "jsval \<Rightarrow> jsval" where
  "to_primitive v = (case v of JObj _ \<Rightarrow> JStr ''[object Object]'' | _ \<Rightarrow> v)"

definition is_string :: "jsval \<Rightarrow> bool" where
  "is_string v = (case v of JStr _ \<Rightarrow> True | _ \<Rightarrow> False)"

definition num_add :: "jsval \<Rightarrow> jsval \<Rightarrow> jsval" where
  "num_add a b = (case (a, b) of (JNum x, JNum y) \<Rightarrow> JNum (x + y) | _ \<Rightarrow> JNaN)"

definition js_add :: "jsval \<Rightarrow> jsval \<Rightarrow> jsval" where
  "js_add a b = (let pa = to_primitive a; pb = to_primitive b in
      if is_string pa \<or> is_string pb then JStr (js_String pa @ js_String pb)
      else num_add (js_Number pa) (js_Number pb))"

section \<open>JSON.stringify\<close>

definition hex_digit :: "nat \<Rightarrow> char" where
  "hex_digit d = (if d < 10 then char_of (48 + d) else char_of (87 + d))"

definition backslash :: char where
  "backslash = CHR 0x5C"

definition json_char :: "char \<Rightarrow> string" where
  "json_char c = (let n = (of_char c :: nat) in
      if n = 34 then [backslash, CHR 0x22]
      else if n = 92 then [backslash, backslash]
      else if n = 8 then [backslash, CHR ''b'']
      else if n = 12 then [backslash, CHR ''f'']
      else if n = 10 then [backslash, CHR ''n'']
      else if n = 13 then [backslash, CHR ''r'']
      else if n = 9 then [backslash, CHR ''t'']
      else if n < 32 then [backslash, CHR ''u'', CHR ''0'', CHR ''0'', hex_digit (n div 16), hex_digit (n mod 16)]
      else [c])"

definition json_quote :: "string \<Rightarrow> string" where
  "json_quote s = CHR 0x22 # concat (map json_char s) @ [CHR 0x22]"

text \<open>\<open>None\<close> is JSON's "no text" for \<open>undefined\<close>; an object drops such
  members.\<close>

fun json_of :: "jsval \<Rightarrow> string option" where
  "json_of JUndef = None"
| "json_of JNull = Some ''null''"
| "json_of (JNum n) = Some (show_int n)"
| "json_of JNaN = Some ''null''"
| "json_of (JStr s) = Some (json_quote s)"
| "json_of (JObj fs) = Some (''{'' @ join_with '',''
      (concat (map (\<lambda>(k, x). case json_of x of None \<Rightarrow> [] | Some j \<Rightarrow> [json_quote k @ '':'' @ j]) fs))
      @ ''}'')"

definition js_JSON_stringify :: "jsval \<Rightarrow> jsval" where
  "js_JSON_stringify v = (case json_of v of None \<Rightarrow> JUndef | Some s \<Rightarrow> JStr s)"

section \<open>Arrays and properties\<close>

definition js_index :: "jsval list \<Rightarrow> nat \<Rightarrow> jsval" where
  "js_index xs i = (if i < length xs then xs ! i else JUndef)"

text \<open>\<open>v.k\<close>: \<open>None\<close> is the \<open>TypeError\<close> thrown on \<open>undefined\<close> and \<open>null\<close>.\<close>

definition js_get :: "jsval \<Rightarrow> string \<Rightarrow> jsval option" where
  "js_get v k = (case v of
      JUndef \<Rightarrow> None | JNull \<Rightarrow> None
    | JObj fs \<Rightarrow> Some (case map_of fs k of None \<Rightarrow> JUndef | Some x \<Rightarrow> x)
    | _ \<Rightarrow> Some JUndef)"

end
