(* ===== verification/Client.thy ===== *)
theory Client
  imports Database Js_Values
begin

text \<open>
  The Prisma client as the scripts use it, and the world a script runs in:
  the database, the environment's fault schedule (the positions, counted
  over the whole history, of the requests whose connection fails), the
  requests sent so far in order, the number of \<open>PrismaClient\<close> instances
  not yet disconnected, and the lines printed on the console. Each client
  operation sends one \<open>Database.req\<close> through \<open>request\<close> and turns the reply
  into the JavaScript value Prisma hands back, decoding SQLite values to
  JavaScript ones (NULL to \<open>null\<close>, integers to numbers, text to strings).
  \<open>create\<close> validates its data against Prisma's 32-bit \<open>Int\<close> before it
  sends anything. \<open>$disconnect()\<close> is called without \<open>await\<close> in the
  scripts; it cannot fail and touches only the client count, so it is
  modelled as taking effect at once. \<open>count_errors\<close> counts the errors
  printed.
\<close>

datatype err =
    DbError db_error
  | ConnectionError
  | ValidationError string
  | TypeError string

datatype line = Log string | ErrorLog err

record world =
  db :: db
  faults :: "nat list"
  sent :: "req list"
  clients :: nat
  out :: "line list"

type_synonym 'a prog = "(world, err, 'a) exn"

text \<open>A process start: an empty table whose schema has the extra columns
  \<open>cols\<close>, nothing sent, no client, nothing printed, fault schedule \<open>fs\<close>.\<close>

definition fresh_world :: "string list \<Rightarrow> nat list \<Rightarrow> world" where
  "fresh_world cols fs =
     \<lparr>db = \<lparr>rows = [], extra_cols = cols\<rparr>, faults = fs, sent = [], clients = 0, out = []\<rparr>"

section \<open>Requests and the client operations\<close>

definition request :: "req \<Rightarrow> reply prog" where
  "request r = (\<lambda>w. let w1 = w\<lparr>sent := sent w @ [r]\<rparr> in
      if length (sent w) \<in> set (faults w) then (Inl ConnectionError, w1)
      else (case serve r (db w) of
              Inl e \<Rightarrow> (Inl (DbError e), w1)
            | Inr (rep, d') \<Rightarrow> (Inr rep, w1\<lparr>db := d'\<rparr>)))"

definition decode :: "sval \<Rightarrow> jsval" where
  "decode v = (case v of SNull \<Rightarrow> JNull | SInt n \<Rightarrow> JNum n | SText s \<Rightarrow> JStr s)"

definition row_obj :: "result_row \<Rightarrow> jsval" where
  "row_obj t = JObj (map (\<lambda>(k, v). (k, decode v)) t)"

definition simple_obj :: "simple \<Rightarrow> jsval" where
  "simple_obj r = JObj [(''name'', JStr (name r)), (''age'', decode (sval_of_opt (age r)))]"

text \<open>\<open>new PrismaClient()\<close>\<close>

definition new_PrismaClient :: "unit prog" where
  "new_PrismaClient = modifyE (\<lambda>w. w\<lparr>clients := Suc (clients w)\<rparr>)"

text \<open>\<open>prisma.$disconnect()\<close>\<close>

definition disconnect :: "unit prog" where
  "disconnect = modifyE (\<lambda>w. w\<lparr>clients := clients w - 1\<rparr>)"

text \<open>\<open>prisma.simple.deleteMany({})\<close>, resolving to \<open>{count}\<close>.\<close>

definition deleteMany :: "jsval prog" where
  "deleteMany = bindE (request DeleteMany) (\<lambda>rep. case rep of
      Count n \<Rightarrow> returnE (JObj [(''count'', JNum (int n))])
    | _ \<Rightarrow> throwE (DbError Unsupported))"

text \<open>\<open>prisma.simple.create({data})\<close>\<close>

definition create :: "simple \<Rightarrow> jsval prog" where
  "create r = (if opt_i32 (age r)
      then bindE (request (Create r)) (\<lambda>rep. case rep of
             Created r' \<Rightarrow> returnE (simple_obj r')
           | _ \<Rightarrow> throwE (DbError Unsupported))
      else throwE (ValidationError ''age''))"

text \<open>\<open>prisma.simple.aggregate({_sum: {age: true}})\<close>\<close>

definition sum_result :: "sval \<Rightarrow> jsval" where
  "sum_result v = JObj [(''_sum'', JObj [(''age'', decode v)])]"

definition aggregate_sum_age :: "jsval prog" where
  "aggregate_sum_age = bindE (request AggregateSumAge) (\<lambda>rep. case rep of
      Rows [[(_, v)]] \<Rightarrow> returnE (sum_result v)
    | _ \<Rightarrow> throwE (DbError Unsupported))"

text \<open>\<open>prisma.$queryRaw\<close> on a statement: the rows as plain objects.\<close>

definition queryRaw :: "select_stmt \<Rightarrow> jsval list prog" where
  "queryRaw q = bindE (request (QueryRaw q)) (\<lambda>rep. case rep of
      Rows t \<Rightarrow> returnE (map row_obj t)
    | _ \<Rightarrow> throwE (DbError Unsupported))"

text \<open>\<open>console.log\<close>, \<open>console.error\<close> and property access \<open>v.k\<close>.\<close>

definition console_log :: "string \<Rightarrow> unit prog" where
  "console_log s = modifyE (\<lambda>w. w\<lparr>out := out w @ [Log s]\<rparr>)"

definition console_error :: "err \<Rightarrow> unit prog" where
  "console_error e = modifyE (\<lambda>w. w\<lparr>out := out w @ [ErrorLog e]\<rparr>)"

definition get :: "string \<Rightarrow> jsval \<Rightarrow> jsval prog" where
  "get k v = liftE (TypeError k) (js_get v k)"

text \<open>The number of errors printed.\<close>

definition count_errors :: "line list \<Rightarrow> nat" where
  "count_errors ls = length (filter (\<lambda>l. case l of ErrorLog _ \<Rightarrow> True | Log _ \<Rightarrow> False) ls)"

section \<open>What each operation does to the world\<close>

text \<open>The connection fails on the next request.\<close>

definition fault_at :: "world \<Rightarrow> bool" where
  "fault_at w \<longleftrightarrow> length (sent w) \<in> set (faults w)"

text \<open>No request among the next \<open>n\<close> fails.\<close>

definition faults_clear :: "world \<Rightarrow> nat \<Rightarrow> bool" where
  "faults_clear w n \<longleftrightarrow> list_all (\<lambda>i. i < length (sent w) \<or> length (sent w) + n \<le> i) (faults w)"

lemma faults_clear_Suc:
  "faults_clear w (Suc n) \<Longrightarrow> \<not> fault_at w \<and> faults_clear (w\<lparr>sent := sent w @ [r], db := d\<rparr>) n"
  by (auto simp: faults_clear_def fault_at_def list_all_iff)

lemma faults_clear_shift:
  "faults_clear w (length xs + n) \<Longrightarrow> faults w' = faults w \<Longrightarrow> sent w' = sent w @ xs \<Longrightarrow>
   faults_clear w' n"
  by (auto simp: faults_clear_def list_all_iff)

lemma faults_clear_fault_at: "faults_clear w (Suc n) \<Longrightarrow> \<not> fault_at w"
  by (auto simp: faults_clear_def fault_at_def list_all_iff)

lemma faults_clear_mono: "faults_clear w m \<Longrightarrow> n \<le> m \<Longrightarrow> faults_clear w n"
  by (auto simp: faults_clear_def list_all_iff)

lemma faults_clear_nth: "faults_clear w n \<Longrightarrow> k < n \<Longrightarrow> length (sent w) + k \<notin> set (faults w)"
  by (auto simp: faults_clear_def list_all_iff)

lemma faults_clear_Nil [simp]: "faults w = [] \<Longrightarrow> faults_clear w n"
  by (simp add: faults_clear_def)

named_theorems run_simps "the effect of each client operation on the world"

lemma request_run:
  "request r w =
     (let w1 = w\<lparr>sent := sent w @ [r]\<rparr> in
      if fault_at w then (Inl ConnectionError, w1)
      else (case serve r (db w) of
              Inl e \<Rightarrow> (Inl (DbError e), w1)
            | Inr (rep, d') \<Rightarrow> (Inr rep, w1\<lparr>db := d'\<rparr>)))"
  by (simp add: request_def fault_at_def)

lemma new_PrismaClient_run [run_simps]:
  "new_PrismaClient w = (Inr (), w\<lparr>clients := Suc (clients w)\<rparr>)"
  by (simp add: new_PrismaClient_def modifyE_def)

lemma disconnect_run [run_simps]:
  "disconnect w = (Inr (), w\<lparr>clients := clients w - 1\<rparr>)"
  by (simp add: disconnect_def modifyE_def)

lemma console_log_run [run_simps]:
  "console_log s w = (Inr (), w\<lparr>out := out w @ [Log s]\<rparr>)"
  by (simp add: console_log_def modifyE_def)

lemma console_error_run [run_simps]:
  "console_error e w = (Inr (), w\<lparr>out := out w @ [ErrorLog e]\<rparr>)"
  by (simp add: console_error_def modifyE_def)

lemma deleteMany_run [run_simps]:
  "deleteMany w =
     (if fault_at w then (Inl ConnectionError, w\<lparr>sent := sent w @ [DeleteMany]\<rparr>)
      else (Inr (JObj [(''count'', JNum (int (length (rows (db w)))))]),
            w\<lparr>sent := sent w @ [DeleteMany], db := (db w)\<lparr>rows := []\<rparr>\<rparr>))"
  by (simp add: deleteMany_def bindE_def request_run returnE_def)

lemma create_run [run_simps]:
  "create r w =
     (if \<not> opt_i32 (age r) then (Inl (ValidationError ''age''), w)
      else if fault_at w then (Inl ConnectionError, w\<lparr>sent := sent w @ [Create r]\<rparr>)
      else (Inr (simple_obj r),
            w\<lparr>sent := sent w @ [Create r], db := (db w)\<lparr>rows := rows (db w) @ [r]\<rparr>\<rparr>))"
  by (simp add: create_def bindE_def request_run returnE_def throwE_def)

lemma aggregate_sum_age_run [run_simps]:
  "aggregate_sum_age w =
     (let w1 = w\<lparr>sent := sent w @ [AggregateSumAge]\<rparr> in
      if fault_at w then (Inl ConnectionError, w1)
      else (case sql_sum (map (sval_of_opt \<circ> age) (rows (db w))) of
              Inl e \<Rightarrow> (Inl (DbError e), w1)
            | Inr v \<Rightarrow> (Inr (sum_result v), w1)))"
  by (simp add: aggregate_sum_age_def bindE_def request_run run_select_agg_sum_age returnE_def
      Let_def split: sum.splits)

lemma queryRaw_run [run_simps]:
  "queryRaw q w =
     (let w1 = w\<lparr>sent := sent w @ [QueryRaw q]\<rparr> in
      if fault_at w then (Inl ConnectionError, w1)
      else (case run_select (db w) q of
              Inl e \<Rightarrow> (Inl (DbError e), w1)
            | Inr t \<Rightarrow> (Inr (map row_obj t), w1)))"
  by (simp add: queryRaw_def bindE_def request_run returnE_def Let_def split: sum.splits)

lemma get_run [run_simps]:
  "get k v w = (case js_get v k of None \<Rightarrow> (Inl (TypeError k), w) | Some x \<Rightarrow> (Inr x, w))"
  by (simp add: get_def liftE_def throwE_def returnE_def split: option.splits)

text \<open>What a successful aggregate or raw query returns.\<close>

lemma queryRaw_Inr:
  "queryRaw q w = (Inr rs, w') \<Longrightarrow> \<exists>t. run_select (db w) q = Inr t \<and> rs = map row_obj t"
  by (auto simp: queryRaw_run Let_def split: if_splits sum.splits)

lemma aggregate_sum_age_Inr:
  "aggregate_sum_age w = (Inr r, w') \<Longrightarrow>
   \<exists>v. sql_sum (map (sval_of_opt \<circ> age) (rows (db w))) = Inr v \<and> r = sum_result v"
  by (auto simp: aggregate_sum_age_run Let_def split: if_splits sum.splits)

section \<open>What the operations keep\<close>

text \<open>Only \<open>deleteMany\<close> and \<open>create\<close> change the database; every other
  operation keeps any property of it.\<close>

lemma keeps_db_ops [keeps_intros]:
  "keeps (\<lambda>w. Q (db w)) new_PrismaClient"
  "keeps (\<lambda>w. Q (db w)) disconnect"
  "keeps (\<lambda>w. Q (db w)) (console_log s)"
  "keeps (\<lambda>w. Q (db w)) (console_error e)"
  "keeps (\<lambda>w. Q (db w)) (get k v)"
  "keeps (\<lambda>w. Q (db w)) aggregate_sum_age"
  "keeps (\<lambda>w. Q (db w)) (queryRaw q)"
  by (auto simp: keeps_def run_simps Let_def split: option.splits sum.splits)

text \<open>Only the two console operations print.\<close>

lemma keeps_out_ops [keeps_intros]:
  "keeps (\<lambda>w. Q (out w)) new_PrismaClient"
  "keeps (\<lambda>w. Q (out w)) disconnect"
  "keeps (\<lambda>w. Q (out w)) deleteMany"
  "keeps (\<lambda>w. Q (out w)) (create r)"
  by (auto simp: keeps_def run_simps)

lemma count_errors_simps [simp]:
  "count_errors [] = 0"
  "count_errors (xs @ [ErrorLog e]) = Suc (count_errors xs)"
  "count_errors (xs @ [Log s]) = count_errors xs"
  by (simp_all add: count_errors_def)

end
