(* ===== verification/Seed.thy ===== *)
theory Seed
  imports Client
begin

text \<open>
  \<open>src/seed.ts\<close>: a fresh client deletes every row of \<open>simple\<close>, then
  inserts the rows of \<open>data\<close> one \<open>await\<close> at a time, then disconnects
  without awaiting. A rejection anywhere ends the function early: rows
  written so far stay written (there is no transaction) and the client is
  never disconnected.
\<close>

definition seed_data :: "simple list" where
  "seed_data = [\<lparr>name = ''a'', age = Some 1\<rparr>, \<lparr>name = ''b'', age = None\<rparr>]"

text \<open>\<open>for (const simp of data) { await prisma.simple.create({data: simp}); }\<close>\<close>

primrec create_each :: "simple list \<Rightarrow> unit prog" where
  "create_each [] = returnE ()"
| "create_each (r # rs) = thenE (create r) (create_each rs)"

definition seed :: "unit prog" where
  "seed = thenE new_PrismaClient
            (thenE deleteMany
              (thenE (create_each seed_data)
                disconnect))"

section \<open>The loop\<close>

lemma create_each_ok:
  "list_all (\<lambda>r. opt_i32 (age r)) rs \<Longrightarrow> faults_clear w (length rs) \<Longrightarrow>
   create_each rs w = (Inr (), w\<lparr>sent := sent w @ map Create rs, db := (db w)\<lparr>rows := rows (db w) @ rs\<rparr>\<rparr>)"
proof (induction rs arbitrary: w)
  case Nil
  then show ?case by (simp add: returnE_def)
next
  case (Cons r rs)
  let ?w1 = "w\<lparr>sent := sent w @ [Create r], db := (db w)\<lparr>rows := rows (db w) @ [r]\<rparr>\<rparr>"
  from Cons.prems have ok: "\<not> fault_at w" "faults_clear ?w1 (length rs)"
    using faults_clear_Suc [of w "length rs"] by auto
  with Cons.prems have "create r w = (Inr (simple_obj r), ?w1)" by (simp add: create_run)
  moreover have "create_each rs ?w1 =
      (Inr (), ?w1\<lparr>sent := sent ?w1 @ map Create rs, db := (db ?w1)\<lparr>rows := rows (db ?w1) @ rs\<rparr>\<rparr>)"
    using Cons.IH Cons.prems ok by simp
  ultimately show ?case by (simp add: thenE_run)
qed

text \<open>Under any fault schedule the loop appends a prefix of its rows, all of
  them when it resolves, and touches nothing but the table and the trace.\<close>

lemma create_each_effect:
  assumes "create_each rs w = (res, w')"
  shows "\<exists>k \<le> length rs. rows (db w') = rows (db w) @ take k rs
           \<and> extra_cols (db w') = extra_cols (db w) \<and> clients w' = clients w
           \<and> out w' = out w \<and> faults w' = faults w \<and> (res = Inr () \<longleftrightarrow> k = length rs)"
  using assms
proof (induction rs arbitrary: w res)
  case Nil
  then show ?case by (simp add: returnE_def)
next
  case (Cons r rs)
  show ?case
  proof (cases "opt_i32 (age r) \<and> \<not> fault_at w")
    case True
    let ?w1 = "w\<lparr>sent := sent w @ [Create r], db := (db w)\<lparr>rows := rows (db w) @ [r]\<rparr>\<rparr>"
    from True Cons.prems have "create_each rs ?w1 = (res, w')"
      by (simp add: thenE_run create_run)
    from Cons.IH [OF this] obtain k where "k \<le> length rs"
      and "rows (db w') = rows (db w) @ r # take k rs" and "extra_cols (db w') = extra_cols (db w)"
      and "clients w' = clients w" "out w' = out w" "faults w' = faults w"
      and "res = Inr () \<longleftrightarrow> k = length rs" by auto
    then show ?thesis by (intro exI [of _ "Suc k"]) auto
  next
    case False
    with Cons.prems have "res \<noteq> Inr ()" and "rows (db w') = rows (db w)" and
      "extra_cols (db w') = extra_cols (db w)" "clients w' = clients w" "out w' = out w"
      "faults w' = faults w"
      by (auto simp: thenE_run create_run split: if_splits)
    then show ?thesis by (intro exI [of _ 0]) auto
  qed
qed

lemma seed_data_i32: "list_all (\<lambda>r. opt_i32 (age r)) seed_data"
  by (simp add: seed_data_def opt_i32_def in_i32_def)

text \<open>The loop, and the seeder, keep every property its steps keep.\<close>

lemma keeps_create_each_gen: "(\<And>r. keeps P (create r)) \<Longrightarrow> keeps P (create_each rs)"
  by (induction rs) (simp_all add: keeps_intros)

section \<open>The seeder\<close>

text \<open>The steps of \<open>seed\<close> up to the loop, on any world.\<close>

lemma seed_run:
  "seed w =
     (let w1 = w\<lparr>clients := Suc (clients w)\<rparr> in
      if fault_at w1 then (Inl ConnectionError, w1\<lparr>sent := sent w @ [DeleteMany]\<rparr>)
      else (case create_each seed_data
                   (w1\<lparr>sent := sent w @ [DeleteMany], db := (db w)\<lparr>rows := []\<rparr>\<rparr>) of
              (Inl e, w2) \<Rightarrow> (Inl e, w2)
            | (Inr _, w2) \<Rightarrow> (Inr (), w2\<lparr>clients := clients w2 - 1\<rparr>)))"
  by (simp add: seed_def thenE_run run_simps Let_def split: prod.splits sum.splits)

lemma keeps_seed_gen:
  "keeps P new_PrismaClient \<Longrightarrow> keeps P deleteMany \<Longrightarrow> (\<And>r. keeps P (create r)) \<Longrightarrow>
   keeps P disconnect \<Longrightarrow> keeps P seed"
  unfolding seed_def by (intro keeps_thenE keeps_create_each_gen)

text \<open>The seeder prints nothing, whatever happens.\<close>

lemma seed_out: "out (snd (seed w)) = out w"
proof -
  have "keeps (\<lambda>w'. out w' = out w) seed" by (intro keeps_seed_gen keeps_out_ops)
  then show ?thesis by (simp add: keeps_def)
qed

lemma seed_outcome:
  assumes "seed w = (res, w')"
  shows "(res = Inr () \<and> rows (db w') = seed_data \<and> clients w' = clients w)
       \<or> (res \<noteq> Inr () \<and> clients w' = Suc (clients w)
          \<and> (rows (db w') = rows (db w) \<or> (\<exists>k < length seed_data. rows (db w') = take k seed_data)))"
proof -
  let ?w1 = "w\<lparr>clients := Suc (clients w)\<rparr>"
  let ?w2 = "?w1\<lparr>sent := sent w @ [DeleteMany], db := (db w)\<lparr>rows := []\<rparr>\<rparr>"
  show ?thesis
  proof (cases "fault_at ?w1")
    case True
    with assms show ?thesis by (auto simp: seed_run)
  next
    case False
    obtain r2 w2 where cr: "create_each seed_data ?w2 = (r2, w2)" by fastforce
    from create_each_effect [OF cr] obtain k where k: "k \<le> length seed_data"
      "rows (db w2) = take k seed_data" "clients w2 = Suc (clients w)"
      "r2 = Inr () \<longleftrightarrow> k = length seed_data" by auto
    show ?thesis
    proof (cases r2)
      case (Inl e)
      with assms False cr have "res = Inl e" "w' = w2" by (simp_all add: seed_run)
      moreover have "k < length seed_data" using k Inl by auto
      ultimately show ?thesis using k by auto
    qed (use assms False cr k in \<open>auto simp: seed_run\<close>)
  qed
qed

lemma seed_run_clear:
  assumes "faults_clear w 3"
  shows "seed w = (Inr (), w\<lparr>sent := sent w @ DeleteMany # map Create seed_data,
                            db := (db w)\<lparr>rows := seed_data\<rparr>\<rparr>)"
proof -
  let ?w1 = "w\<lparr>clients := Suc (clients w)\<rparr>"
  let ?w2 = "?w1\<lparr>sent := sent w @ [DeleteMany], db := (db w)\<lparr>rows := []\<rparr>\<rparr>"
  have "faults_clear ?w1 (Suc (length seed_data))"
    using assms by (simp add: faults_clear_def seed_data_def eval_nat_numeral)
  then have "\<not> fault_at ?w1" and "faults_clear ?w2 (length seed_data)"
    using faults_clear_Suc [of ?w1 "length seed_data" "(db w)\<lparr>rows := []\<rparr>" DeleteMany] by auto
  then show ?thesis
    by (simp add: seed_run create_each_ok seed_data_i32)
qed

section \<open>Properties of the seeder\<close>

text \<open>
  C8. When none of its three requests fails, \<open>seed\<close> resolves, the table
  holds exactly the two rows of \<open>data\<close> in order whatever it held before,
  the requests sent are one delete and one insert per row, and the client it
  opened is disconnected again (the world is otherwise unchanged).
\<close>

theorem seed_replaces_table:
  assumes "faults_clear w 3"
  shows "seed w = (Inr (), w\<lparr>sent := sent w @ DeleteMany # map Create seed_data,
                            db := (db w)\<lparr>rows := seed_data\<rparr>\<rparr>)"
  using assms by (rule seed_run_clear)

theorem seed_replaces_table_witness:
  "faults_clear (fresh_world [] []) 3 \<and>
   seed (fresh_world [] []) =
     (Inr (), (fresh_world [] [])\<lparr>sent := [DeleteMany, Create \<lparr>name = ''a'', age = Some 1\<rparr>,
                                           Create \<lparr>name = ''b'', age = None\<rparr>],
                                  db := \<lparr>rows = seed_data, extra_cols = []\<rparr>\<rparr>)"
  using seed_replaces_table [of "fresh_world [] []"]
  by (simp add: fresh_world_def seed_data_def)

text \<open>
  C9. A rejected \<open>seed\<close> leaves the table either as it was (the delete
  failed) or holding a strict prefix of \<open>data\<close>: the deletion and the
  inserts are separate requests with no transaction, so the runner that
  continues after a failed seed may read a partly seeded table.
\<close>

theorem seed_failure_table:
  assumes "seed w = (Inl e, w')"
  shows "rows (db w') = rows (db w) \<or> (\<exists>k < length seed_data. rows (db w') = take k seed_data)"
  using seed_outcome [OF assms] by auto

theorem seed_failure_table_witness:
  "seed (fresh_world [] [2]) = (Inl ConnectionError, snd (seed (fresh_world [] [2]))) \<and>
   rows (db (snd (seed (fresh_world [] [2])))) = [\<lparr>name = ''a'', age = Some 1\<rparr>] \<and>
   (rows (db (snd (seed (fresh_world [] [2])))) = rows (db (fresh_world [] [2])) \<or>
    (\<exists>k < length seed_data. rows (db (snd (seed (fresh_world [] [2])))) = take k seed_data))"
proof -
  have run: "seed (fresh_world [] [2]) = (Inl ConnectionError, snd (seed (fresh_world [] [2])))"
    and tbl: "rows (db (snd (seed (fresh_world [] [2])))) = [\<lparr>name = ''a'', age = Some 1\<rparr>]"
    by (simp_all add: seed_run fresh_world_def fault_at_def seed_data_def thenE_run create_run
        opt_i32_def in_i32_def)
  show ?thesis using run tbl seed_failure_table [OF run] by simp
qed

text \<open>
  C10. \<open>seed\<close> disconnects its client only when it resolves: on every
  rejection the \<open>PrismaClient\<close> it created stays open, because the
  \<open>$disconnect()\<close> call sits after the awaits with no \<open>finally\<close>.
\<close>

theorem seed_client_leak:
  assumes "seed w = (res, w')"
  shows "clients w' = (if res = Inr () then clients w else Suc (clients w))"
  using seed_outcome [OF assms] by auto

theorem seed_client_leak_witness:
  "seed (fresh_world [] [0]) = (Inl ConnectionError, snd (seed (fresh_world [] [0]))) \<and>
   clients (snd (seed (fresh_world [] [0]))) = 1"
proof -
  have run: "seed (fresh_world [] [0]) = (Inl ConnectionError, snd (seed (fresh_world [] [0])))"
    by (simp add: seed_run fresh_world_def fault_at_def)
  show ?thesis using run seed_client_leak [OF run] by (simp add: fresh_world_def)
qed

section \<open>How the loop ends\<close>

text \<open>
  C24. The \<open>for (const simp of data)\<close> loop ends, on every fault schedule,
  after at most one iteration per row and at the first that fails: when it
  resolves it has sent exactly one create per row, in order; when it
  rejects at row \<open>k\<close> it has sent the creates of the rows before \<open>k\<close> and at
  most the one of row \<open>k\<close> (not when the validation refused it), and none
  of a later row.
\<close>

theorem create_each_stops:
  "create_each rs w = (res, w') \<Longrightarrow>
   \<exists>k \<le> length rs.
     (res = Inr () \<and> k = length rs \<and> sent w' = sent w @ map Create rs) \<or>
     (isl res \<and> k < length rs \<and>
      (sent w' = sent w @ map Create (take k rs) \<or> sent w' = sent w @ map Create (take (Suc k) rs)))"
proof (induction rs arbitrary: w res)
  case Nil
  then show ?case by (simp add: returnE_def)
next
  case (Cons r rs)
  show ?case
  proof (cases "opt_i32 (age r) \<and> \<not> fault_at w")
    case True
    let ?w1 = "w\<lparr>sent := sent w @ [Create r], db := (db w)\<lparr>rows := rows (db w) @ [r]\<rparr>\<rparr>"
    from True Cons.prems have "create_each rs ?w1 = (res, w')"
      by (simp add: thenE_run create_run)
    from Cons.IH [OF this] obtain k where "k \<le> length rs"
      "(res = Inr () \<and> k = length rs \<and> sent w' = sent ?w1 @ map Create rs) \<or>
       (isl res \<and> k < length rs \<and>
        (sent w' = sent ?w1 @ map Create (take k rs) \<or> sent w' = sent ?w1 @ map Create (take (Suc k) rs)))"
      by blast
    then show ?thesis by (intro exI [of _ "Suc k"]) auto
  next
    case False
    with Cons.prems have "isl res" and "sent w' = sent w \<or> sent w' = sent w @ [Create r]"
      by (auto simp: thenE_run create_run split: if_splits)
    then show ?thesis by (intro exI [of _ 0]) auto
  qed
qed

theorem create_each_stops_witness:
  "create_each seed_data (fresh_world [] [0]) =
     (Inl ConnectionError, snd (create_each seed_data (fresh_world [] [0]))) \<and>
   sent (snd (create_each seed_data (fresh_world [] [0]))) = [Create (hd seed_data)]"
proof -
  have h: "create_each seed_data (fresh_world [] [0]) =
     (Inl ConnectionError, snd (create_each seed_data (fresh_world [] [0])))"
    by (simp add: seed_data_def thenE_run create_run fault_at_def fresh_world_def opt_i32_def in_i32_def)
  have "sent (snd (create_each seed_data (fresh_world [] [0]))) = [Create (hd seed_data)]"
    by (simp add: seed_data_def thenE_run create_run fault_at_def fresh_world_def opt_i32_def in_i32_def)
  then show ?thesis using h create_each_stops [OF h] by simp
qed

section \<open>How the seeder fails\<close>




end
