(* ===== verification/Orm_Runner.thy ===== *)
theory Orm_Runner
  imports Seed
begin

text \<open>
  \<open>src/orm.ts\<close>: after seeding, a fresh client asks Prisma for the sum of
  \<open>age\<close>, coerces it with \<open>Number(...)\<close>, adds 99, prints a report and
  disconnects. \<open>main\<close> runs the seeder, logs and swallows its rejection,
  then runs the query the same way.
\<close>

definition newline :: string where
  "newline = [CHR 0x0A]"

text \<open>The template literal of \<open>query\<close>, verbatim.\<close>

definition orm_msg :: "jsval \<Rightarrow> jsval \<Rightarrow> jsval \<Rightarrow> string" where
  "orm_msg result sum_age goodValue =
     newline @ ''  results of ORM queries--------'' @ newline
     @ ''  result: '' @ js_String (js_JSON_stringify result) @ newline
     @ ''  result._sum.age: '' @ js_String sum_age @ '' (type: '' @ js_typeof sum_age @ '')'' @ newline
     @ ''  goodValue: '' @ js_String goodValue @ '' (type: '' @ js_typeof goodValue @ '')'' @ newline
     @ ''  ''"

definition orm_query :: "unit prog" where
  "orm_query =
     thenE new_PrismaClient
      (bindE aggregate_sum_age (\<lambda>result.
       bindE (bindE (get ''_sum'' result) (get ''age'')) (\<lambda>sum_age.
       let goodValue = js_add (js_Number sum_age) (JNum 99) in
       thenE (console_log (orm_msg result sum_age goodValue))
         disconnect)))"

definition orm_main :: "unit prog" where
  "orm_main = thenE (catchE seed console_error) (catchE orm_query console_error)"

text \<open>The text \<open>JSON.stringify(result)\<close> should print for an aggregate whose
  abstract value is \<open>x\<close>: \<open>{"_sum":{"age":x}}\<close>, absence as \<open>null\<close>.\<close>

definition json_sum_report :: "int option \<Rightarrow> string" where
  "json_sum_report x = ''{'' @ json_quote ''_sum'' @ '':{'' @ json_quote ''age'' @ '':''
      @ (case x of None \<Rightarrow> ''null'' | Some n \<Rightarrow> show_int n) @ ''}}''"

section \<open>Runs of the query\<close>

text \<open>\<open>Number(x) + 99\<close> on the value Prisma decodes from the SQL sum.\<close>

lemma good_value_run:
  "js_add (js_Number (decode (sval_of_opt x))) (JNum 99) = JNum (opt_val x + 99)"
  by (cases x) (simp_all add: decode_def js_Number_def js_add_def to_primitive_def is_string_def
      num_add_def)

lemma orm_query_run:
  "orm_query w =
    (let w1 = w\<lparr>clients := Suc (clients w), sent := sent w @ [AggregateSumAge]\<rparr> in
     if fault_at w then (Inl ConnectionError, w1)
     else (case sql_sum (map (sval_of_opt \<circ> age) (rows (db w))) of
             Inl e \<Rightarrow> (Inl (DbError e), w1)
           | Inr v \<Rightarrow> (Inr (), w\<lparr>sent := sent w @ [AggregateSumAge],
                 out := out w @ [Log (orm_msg (sum_result v) (decode v)
                                     (js_add (js_Number (decode v)) (JNum 99)))]\<rparr>)))"
  by (simp add: orm_query_def thenE_run run_simps fault_at_def sum_result_def js_get_def Let_def
      split: sum.splits)

lemma keeps_orm_query [keeps_intros]: "keeps (\<lambda>w. Q (db w)) orm_query"
  unfolding orm_query_def Let_def by (intro keeps_intros)

text \<open>The query either fails having printed nothing and leaving its client
  open, or succeeds having printed its one report and disconnected.\<close>

lemma orm_query_effect:
  "orm_query w = (r, w') \<Longrightarrow>
   (isl r \<and> out w' = out w \<and> clients w' = Suc (clients w)) \<or>
   (r = Inr () \<and> clients w' = clients w \<and> (\<exists>l. out w' = out w @ [Log l]))"
  by (auto simp: orm_query_run Let_def split: if_splits sum.splits)

lemma seed_data_sum: "sql_sum (map (sval_of_opt \<circ> age) seed_data) = Inr (SInt 1)"
  by (simp add: seed_data_def sql_sum_def in_i64_def)

lemmas orm_msg_eval = orm_msg_def sum_result_def js_JSON_stringify_def js_String_def
  js_typeof_def json_quote_def json_char_def decode_def show_int_def show_nat.simps

text \<open>On fewer than \<open>2^21\<close> rows of 32-bit ages the sum, and the sum plus
  99, stay within \<open>2^53\<close>, where a JavaScript double is exact: there the
  model's exact integers are the numbers the script prints.\<close>

lemma small_table_sum:
  assumes "wf_db d" and "length (rows d) < 2 ^ 21"
  shows "length (rows d) < 2 ^ 32" and "safe_int (opt_val (sum_spec (map age (rows d))))"
    and "safe_int (opt_val (sum_spec (map age (rows d))) + 99)"
proof -
  show "length (rows d) < 2 ^ 32" using assms(2) by simp
  have "list_all opt_i32 (map age (rows d))" using assms(1) by (simp add: wf_db_def list_all_iff)
  from sum_opt_val_bound [OF this]
  have b: "\<bar>opt_val (sum_spec (map age (rows d)))\<bar> \<le> int (length (rows d)) * 2 ^ 31"
    by (simp add: sum_spec_def)
  have "int (length (rows d)) * 2 ^ 31 \<le> (2 ^ 21 - 1) * (2 ^ 31 :: int)"
    using assms(2) by (intro mult_right_mono) simp_all
  with b show "safe_int (opt_val (sum_spec (map age (rows d))))"
    and "safe_int (opt_val (sum_spec (map age (rows d))) + 99)"
    by (simp_all add: safe_int_def)
qed

section \<open>Properties of the ORM runner\<close>

text \<open>
  C1. The end-to-end scenario of the spec: when none of its four requests
  fails, \<open>main\<close> of \<open>orm.ts\<close> seeds the table with the two rows, sends
  exactly the delete, the two inserts and the aggregate, in that order,
  closes both clients and prints one report: the JSON of the result, the
  sum 1 with runtime type \<open>number\<close>, and \<open>goodValue\<close> 1 + 99 = 100.
\<close>

theorem orm_main_seeded:
  assumes "faults_clear w 4"
  shows "orm_main w =
    (Inr (), w\<lparr>sent := sent w @ [DeleteMany, Create \<lparr>name = ''a'', age = Some 1\<rparr>,
                                 Create \<lparr>name = ''b'', age = None\<rparr>, AggregateSumAge],
              db := (db w)\<lparr>rows := seed_data\<rparr>,
              out := out w @ [Log (newline @ ''  results of ORM queries--------'' @ newline
                 @ ''  result: {'' @ [CHR 0x22] @ ''_sum'' @ [CHR 0x22] @ '':{''
                 @ [CHR 0x22] @ ''age'' @ [CHR 0x22] @ '':1}}'' @ newline
                 @ ''  result._sum.age: 1 (type: number)'' @ newline
                 @ ''  goodValue: 100 (type: number)'' @ newline @ ''  '')]\<rparr>)"
proof -
  let ?w2 = "w\<lparr>sent := sent w @ DeleteMany # map Create seed_data, db := (db w)\<lparr>rows := seed_data\<rparr>\<rparr>"
  have "seed w = (Inr (), ?w2)"
    using faults_clear_mono [OF assms, of 3] by (intro seed_run_clear) simp
  moreover have "\<not> fault_at ?w2"
    using faults_clear_shift [of w "DeleteMany # map Create seed_data" 1 ?w2] assms
    by (simp add: seed_data_def faults_clear_fault_at eval_nat_numeral)
  moreover have "orm_query ?w2 = (Inr (), ?w2\<lparr>sent := sent ?w2 @ [AggregateSumAge],
      out := out w @ [Log (orm_msg (sum_result (SInt 1)) (JNum 1) (JNum 100))]\<rparr>)"
    using \<open>\<not> fault_at ?w2\<close>
    by (simp add: orm_query_run seed_data_sum decode_def js_Number_def js_add_def
        to_primitive_def is_string_def num_add_def)
  moreover have "orm_msg (sum_result (SInt 1)) (JNum 1) (JNum 100) =
      newline @ ''  results of ORM queries--------'' @ newline
      @ ''  result: {'' @ [CHR 0x22] @ ''_sum'' @ [CHR 0x22] @ '':{''
      @ [CHR 0x22] @ ''age'' @ [CHR 0x22] @ '':1}}'' @ newline
      @ ''  result._sum.age: 1 (type: number)'' @ newline
      @ ''  goodValue: 100 (type: number)'' @ newline @ ''  ''"
    by (simp add: orm_msg_eval)
  ultimately show ?thesis
    by (simp add: orm_main_def thenE_run seed_data_def)
qed

theorem orm_main_seeded_witness:
  "faults_clear (fresh_world [] []) 4 \<and>
   out (snd (orm_main (fresh_world [] []))) =
     [Log (newline @ ''  results of ORM queries--------'' @ newline
       @ ''  result: {'' @ [CHR 0x22] @ ''_sum'' @ [CHR 0x22] @ '':{''
       @ [CHR 0x22] @ ''age'' @ [CHR 0x22] @ '':1}}'' @ newline
       @ ''  result._sum.age: 1 (type: number)'' @ newline
       @ ''  goodValue: 100 (type: number)'' @ newline @ ''  '')]"
  using orm_main_seeded [of "fresh_world [] []"] by (simp add: fresh_world_def)

text \<open>
  C2. On any table of 32-bit ages with fewer than \<open>2^21\<close> rows, when its
  request does not fail, \<open>query\<close> prints the sum as the spec's
  AggregateResult has it (absent, printed \<open>null\<close>, when no row has an
  age; the sum of the ages present otherwise) and \<open>goodValue\<close> as that
  sum with absence coerced to 0, plus 99; it sends one aggregate request and
  closes its client. Both printed numbers are within \<open>2^53\<close>, so a
  double holds them exactly and the report shows them without rounding.
\<close>

theorem orm_query_report:
  assumes "wf_db (db w)" and "length (rows (db w)) < 2 ^ 21" and "\<not> fault_at w"
  shows "orm_query w =
    (Inr (), w\<lparr>sent := sent w @ [AggregateSumAge],
       out := out w @ [Log (orm_msg (sum_result (sval_of_opt (sum_spec (map age (rows (db w))))))
                                    (decode (sval_of_opt (sum_spec (map age (rows (db w))))))
                                    (JNum (opt_val (sum_spec (map age (rows (db w)))) + 99)))]\<rparr>) \<and>
    safe_int (opt_val (sum_spec (map age (rows (db w))))) \<and>
    safe_int (opt_val (sum_spec (map age (rows (db w)))) + 99)"
proof -
  note small = small_table_sum [OF assms(1,2)]
  have "list_all opt_i32 (map age (rows (db w)))"
    using assms(1) by (simp add: wf_db_def list_all_iff)
  from sql_sum_spec [OF this] small(1)
  have "sql_sum (map (sval_of_opt \<circ> age) (rows (db w))) =
          Inr (sval_of_opt (sum_spec (map age (rows (db w)))))"
    by simp
  with assms(3) small(2,3) show ?thesis
    by (simp add: orm_query_run good_value_run)
qed

theorem orm_query_report_witness:
  "wf_db (db (fresh_world [] [])) \<and> length (rows (db (fresh_world [] []))) < 2 ^ 21 \<and>
   \<not> fault_at (fresh_world [] []) \<and>
   out (snd (orm_query (fresh_world [] []))) = [Log (orm_msg (sum_result SNull) JNull (JNum 99))]"
proof -
  have h: "wf_db (db (fresh_world [] []))" "length (rows (db (fresh_world [] []))) < 2 ^ 21"
    "\<not> fault_at (fresh_world [] [])"
    by (simp_all add: fresh_world_def wf_db_def fault_at_def)
  show ?thesis
    using h orm_query_report [OF h]
    by (simp add: fresh_world_def sum_spec_def decode_def)
qed

text \<open>
  C11. When the first insert of the seeder fails, \<open>main\<close> logs the seeder's
  error, still runs the query, and the query reads the table the seeder left
  behind: emptied by the delete, so the sum is absent, printed \<open>null\<close> with
  runtime type \<open>object\<close> (JavaScript's \<open>typeof null\<close>) although its static
  type is \<open>number | null\<close>, and \<open>goodValue\<close> is 0 + 99. The seeder's
  client is never disconnected.
\<close>

theorem orm_main_after_failed_seed:
  assumes "faults w = [Suc (length (sent w))]"
  shows "orm_main w =
    (Inr (), w\<lparr>db := (db w)\<lparr>rows := []\<rparr>,
              sent := sent w @ [DeleteMany, Create \<lparr>name = ''a'', age = Some 1\<rparr>, AggregateSumAge],
              clients := Suc (clients w),
              out := out w @ [ErrorLog ConnectionError,
                 Log (newline @ ''  results of ORM queries--------'' @ newline
                 @ ''  result: {'' @ [CHR 0x22] @ ''_sum'' @ [CHR 0x22] @ '':{''
                 @ [CHR 0x22] @ ''age'' @ [CHR 0x22] @ '':null}}'' @ newline
                 @ ''  result._sum.age: null (type: object)'' @ newline
                 @ ''  goodValue: 99 (type: number)'' @ newline @ ''  '')]\<rparr>)"
proof -
  let ?w2 = "w\<lparr>clients := Suc (clients w), sent := sent w @ [DeleteMany, Create (hd seed_data)],
              db := (db w)\<lparr>rows := []\<rparr>\<rparr>"
  have "seed w = (Inl ConnectionError, ?w2)"
    using assms by (simp add: seed_run fault_at_def seed_data_def thenE_run create_run
        opt_i32_def in_i32_def)
  moreover have "orm_query (?w2\<lparr>out := out w @ [ErrorLog ConnectionError]\<rparr>) =
      (Inr (), ?w2\<lparr>sent := sent ?w2 @ [AggregateSumAge],
        out := out w @ [ErrorLog ConnectionError, Log (orm_msg (sum_result SNull) JNull (JNum 99))]\<rparr>)"
    using assms by (simp add: orm_query_run fault_at_def sql_sum_def decode_def js_Number_def
        js_add_def to_primitive_def is_string_def num_add_def)
  moreover have "orm_msg (sum_result SNull) JNull (JNum 99) =
      newline @ ''  results of ORM queries--------'' @ newline
      @ ''  result: {'' @ [CHR 0x22] @ ''_sum'' @ [CHR 0x22] @ '':{''
      @ [CHR 0x22] @ ''age'' @ [CHR 0x22] @ '':null}}'' @ newline
      @ ''  result._sum.age: null (type: object)'' @ newline
      @ ''  goodValue: 99 (type: number)'' @ newline @ ''  ''"
    by (simp add: orm_msg_eval)
  ultimately show ?thesis
    by (simp add: orm_main_def thenE_run console_error_run seed_data_def)
qed

theorem orm_main_after_failed_seed_witness:
  "faults (fresh_world [] [1]) = [Suc (length (sent (fresh_world [] [1])))] \<and>
   clients (snd (orm_main (fresh_world [] [1]))) = 1 \<and>
   rows (db (snd (orm_main (fresh_world [] [1])))) = []"
  using orm_main_after_failed_seed [of "fresh_world [] [1]"] by (simp add: fresh_world_def)

text \<open>
  C12. \<open>main\<close> never rejects, whatever fails (every promise chain ends in
  a handler that logs and swallows), and the query phase always runs: its
  aggregate request is the last request sent, after the seeder's, even when
  the seeder failed.
\<close>

theorem orm_main_swallows:
  "fst (orm_main w) = Inr () \<and> last (sent (snd (orm_main w))) = AggregateSumAge"
proof -
  obtain r1 w1 where s: "catchE seed console_error w = (r1, w1)" by fastforce
  have "r1 = Inr ()"
    using s by (auto simp: catchE_def console_error_run split: prod.splits sum.splits)
  then show ?thesis
    using s by (auto simp: orm_main_def thenE_run orm_query_run catchE_def console_error_run Let_def
        split: prod.splits sum.splits)
qed

section \<open>The printed result against the specification\<close>

text \<open>
  C23. \<open>JSON.stringify(result)\<close> in the report prints the abstract
  AggregateResult of the table the aggregate ran on:
  \<open>{"_sum":{"age":n}}\<close> with \<open>n\<close> the sum of the ages present, or \<open>null\<close>
  when no row has an age, on every table of 32-bit ages with fewer than
  \<open>2^21\<close> rows, where \<open>n\<close> is within \<open>2^53\<close> and so printed exactly.
\<close>

theorem aggregate_json_spec:
  assumes "aggregate_sum_age w = (Inr r, w')" and "wf_db (db w)" and "length (rows (db w)) < 2 ^ 21"
  shows "js_JSON_stringify r = JStr (json_sum_report (sum_spec (map age (rows (db w))))) \<and>
         safe_int (opt_val (sum_spec (map age (rows (db w)))))"
proof -
  note small = small_table_sum [OF assms(2,3)]
  obtain v where v: "sql_sum (map (sval_of_opt \<circ> age) (rows (db w))) = Inr v" and r: "r = sum_result v"
    using aggregate_sum_age_Inr [OF assms(1)] by blast
  have "v = sval_of_opt (sum_spec (map age (rows (db w))))"
    using sql_sum_exact [of "map age (rows (db w))" v] v by simp
  then show ?thesis
    using small(2) by (cases "sum_spec (map age (rows (db w)))")
      (simp_all add: r sum_result_def js_JSON_stringify_def json_sum_report_def decode_def)
qed

theorem aggregate_json_spec_witness:
  "aggregate_sum_age ((fresh_world [] [])\<lparr>db := \<lparr>rows = seed_data, extra_cols = []\<rparr>\<rparr>) =
     (Inr (sum_result (SInt 1)), snd (aggregate_sum_age ((fresh_world [] [])\<lparr>db := \<lparr>rows = seed_data, extra_cols = []\<rparr>\<rparr>))) \<and>
   wf_db \<lparr>rows = seed_data, extra_cols = []\<rparr> \<and> length seed_data < 2 ^ 21 \<and>
   js_JSON_stringify (sum_result (SInt 1)) = JStr (json_sum_report (Some 1))"
proof -
  have h: "aggregate_sum_age ((fresh_world [] [])\<lparr>db := \<lparr>rows = seed_data, extra_cols = []\<rparr>\<rparr>) =
     (Inr (sum_result (SInt 1)), snd (aggregate_sum_age ((fresh_world [] [])\<lparr>db := \<lparr>rows = seed_data, extra_cols = []\<rparr>\<rparr>)))"
    using seed_data_sum by (simp add: aggregate_sum_age_run fresh_world_def fault_at_def)
  have d: "wf_db (db ((fresh_world [] [])\<lparr>db := \<lparr>rows = seed_data, extra_cols = []\<rparr>\<rparr>))"
    "length (rows (db ((fresh_world [] [])\<lparr>db := \<lparr>rows = seed_data, extra_cols = []\<rparr>\<rparr>))) < 2 ^ 21"
    by (simp_all add: wf_db_def seed_data_def opt_i32_def in_i32_def)
  have "sum_spec (map age seed_data) = Some 1" by (simp add: seed_data_def sum_spec_def)
  then show ?thesis using h d aggregate_json_spec [OF h d] by simp
qed



end
