(* ===== verification/Raw_Runner.thy ===== *)
theory Raw_Runner
  imports Orm_Runner
begin

text \<open>
  \<open>src/raw.ts\<close>: after seeding, a fresh client sends three raw SQL
  statements, reads \<open>mySum\<close> of the first row of each result, computes
  \<open>badInt[0].mySum + 99\<close>, prints a report and disconnects; \<open>main\<close> is
  the same promise chain as in \<open>orm.ts\<close>. The statements are given as
  SQLite parses them: \<open>""\<close>, \<open>"4"\<close> and \<open>"bad"\<close> are double-quoted
  tokens, \<open>age\<close> and \<open>fav\<close> unquoted identifiers.
\<close>

text \<open>\<open>SELECT coalesce(SUM(age),"") as mySum FROM simple;\<close>\<close>

definition raw_int_stmt :: select_stmt where
  "raw_int_stmt = \<lparr>sel = Coalesce (Sum (Ident ''age'')) (DQuoted ''''),
                   sel_alias = ''mySum'', from_table = Some ''simple''\<rparr>"

text \<open>\<open>SELECT "4" as mySum;\<close>\<close>

definition raw_str_stmt :: select_stmt where
  "raw_str_stmt = \<lparr>sel = DQuoted ''4'', sel_alias = ''mySum'', from_table = None\<rparr>"

text \<open>\<open>SELECT coalesce(SUM(fav),"bad") as mySum FROM simple;\<close>\<close>

definition bad_int_stmt :: select_stmt where
  "bad_int_stmt = \<lparr>sel = Coalesce (Sum (Ident ''fav'')) (DQuoted ''bad''),
                   sel_alias = ''mySum'', from_table = Some ''simple''\<rparr>"

text \<open>\<open>rows[0].mySum\<close>\<close>

definition my_sum :: "jsval list \<Rightarrow> jsval prog" where
  "my_sum rs = get ''mySum'' (js_index rs 0)"

text \<open>The template literal of \<open>query\<close>, verbatim.\<close>

definition raw_msg :: "jsval \<Rightarrow> jsval \<Rightarrow> jsval \<Rightarrow> jsval \<Rightarrow> string" where
  "raw_msg i s b badValue =
     newline @ ''  results of RAW queries--------'' @ newline
     @ ''  rawInt: '' @ js_String i @ '' (type: '' @ js_typeof i @ '')'' @ newline
     @ ''  rawStr: '' @ js_String s @ '' (type: '' @ js_typeof s @ '')'' @ newline
     @ ''  badInt: '' @ js_String b @ '' (type: '' @ js_typeof b @ '')'' @ newline
     @ ''  badValue:'' @ newline
     @ ''    (typed number, but has type '' @ js_typeof badValue @ '')'' @ newline
     @ ''    value: '' @ js_String badValue @ newline
     @ ''  ------------------------------'' @ newline
     @ ''  ''"

definition raw_query :: "unit prog" where
  "raw_query =
     thenE new_PrismaClient
      (bindE (queryRaw raw_int_stmt) (\<lambda>rawInt.
       bindE (queryRaw raw_str_stmt) (\<lambda>rawStr.
       bindE (queryRaw bad_int_stmt) (\<lambda>badInt.
       bindE (my_sum badInt) (\<lambda>bad.
       let badValue = js_add bad (JNum 99) in
       bindE (my_sum rawInt) (\<lambda>i.
       bindE (my_sum rawStr) (\<lambda>s.
       bindE (my_sum badInt) (\<lambda>b.
       thenE (console_log (raw_msg i s b badValue))
         disconnect))))))))"

definition raw_main :: "unit prog" where
  "raw_main = thenE (catchE seed console_error) (catchE raw_query console_error)"

section \<open>The three statements\<close>

lemma col_value_fav: "col_value r ''fav'' = SNull"
  by (simp add: col_value_def same_ident_def lower_char_def)

lemma run_select_raw_str: "run_select d raw_str_stmt = Inr [[(''mySum'', SText ''4'')]]"
  by (simp add: run_select_def raw_str_stmt_def source_def)

lemma run_select_bad: "\<not> is_column d ''fav'' \<Longrightarrow> run_select d bad_int_stmt = Inl (NoSuchColumn ''fav'')"
  by (simp add: bad_int_stmt_def run_select_coalesce_no_col)

lemma run_select_bad_fav:
  "is_column d ''fav'' \<Longrightarrow> \<not> is_column d ''bad'' \<Longrightarrow>
   run_select d bad_int_stmt = Inr [[(''mySum'', SText ''bad'')]]"
  by (simp add: bad_int_stmt_def run_select_coalesce_sum col_value_fav sql_sum_all_null)

lemma run_select_raw_int:
  "schema_ok d \<Longrightarrow> run_select d raw_int_stmt =
     map_sum id (\<lambda>v. [[(''mySum'', if v = SNull then SText '''' else v)]])
       (sql_sum (map (sval_of_opt \<circ> age) (rows d)))"
  by (simp add: raw_int_stmt_def run_select_coalesce_sum schema_ok_not_Nil is_column_age comp_def)

lemma my_sum_row: "my_sum [row_obj [(''mySum'', v)]] w = (Inr (decode v), w)"
  by (simp add: my_sum_def js_index_def row_obj_def run_simps js_get_def)

lemma keeps_raw_query [keeps_intros]: "keeps (\<lambda>w. Q (db w)) raw_query"
  unfolding raw_query_def my_sum_def Let_def by (intro keeps_intros)

lemma raw_query_effect:
  "raw_query w = (r, w') \<Longrightarrow>
   (isl r \<and> out w' = out w \<and> clients w' = Suc (clients w)) \<or>
   (r = Inr () \<and> clients w' = clients w \<and> (\<exists>l. out w' = out w @ [Log l]))"
  by (auto simp: raw_query_def my_sum_def thenE_run bindE_def run_simps Let_def
      split: if_splits sum.splits option.splits prod.splits)

section \<open>Runs of the query\<close>

lemma raw_query_no_fav:
  assumes "faults_clear w 3" "schema_ok (db w)" "\<not> is_column (db w) ''fav''"
    and "sql_sum (map (sval_of_opt \<circ> age) (rows (db w))) = Inr vi"
  shows "raw_query w = (Inl (DbError (NoSuchColumn ''fav'')),
     w\<lparr>clients := Suc (clients w),
       sent := sent w @ map QueryRaw [raw_int_stmt, raw_str_stmt, bad_int_stmt]\<rparr>)"
  using assms faults_clear_nth [OF assms(1), of 0] faults_clear_nth [OF assms(1), of 1]
    faults_clear_nth [OF assms(1), of 2]
  by (simp add: raw_query_def thenE_run run_simps fault_at_def run_select_raw_int run_select_raw_str
      run_select_bad Let_def)

lemma raw_query_fav:
  assumes "faults_clear w 3" "schema_ok (db w)" "is_column (db w) ''fav''" "\<not> is_column (db w) ''bad''"
    and "sql_sum (map (sval_of_opt \<circ> age) (rows (db w))) = Inr vi"
  shows "raw_query w = (Inr (),
     w\<lparr>sent := sent w @ map QueryRaw [raw_int_stmt, raw_str_stmt, bad_int_stmt],
       out := out w @ [Log (raw_msg (decode (if vi = SNull then SText '''' else vi)) (JStr ''4'')
                                    (JStr ''bad'') (js_add (JStr ''bad'') (JNum 99)))]\<rparr>)"
  using assms faults_clear_nth [OF assms(1), of 0] faults_clear_nth [OF assms(1), of 1]
    faults_clear_nth [OF assms(1), of 2]
  by (simp add: raw_query_def thenE_run run_simps fault_at_def run_select_raw_int run_select_raw_str
      run_select_bad_fav my_sum_row Let_def decode_def)

text \<open>The seeder's run inside \<open>main\<close> when its three requests succeed.\<close>

lemma seed_then:
  assumes "faults_clear w (3 + n)"
  shows "seed w = (Inr (), w\<lparr>sent := sent w @ DeleteMany # map Create seed_data,
                               db := (db w)\<lparr>rows := seed_data\<rparr>\<rparr>)"
    and "faults_clear (w\<lparr>sent := sent w @ DeleteMany # map Create seed_data,
                          db := (db w)\<lparr>rows := seed_data\<rparr>\<rparr>) n"
proof -
  show "seed w = (Inr (), w\<lparr>sent := sent w @ DeleteMany # map Create seed_data,
                               db := (db w)\<lparr>rows := seed_data\<rparr>\<rparr>)"
    using faults_clear_mono [OF assms, of 3] by (intro seed_run_clear) simp
  show "faults_clear (w\<lparr>sent := sent w @ DeleteMany # map Create seed_data,
                          db := (db w)\<lparr>rows := seed_data\<rparr>\<rparr>) n"
    by (rule faults_clear_shift [of w "DeleteMany # map Create seed_data"])
      (use assms in \<open>simp_all add: seed_data_def eval_nat_numeral\<close>)
qed

section \<open>Properties of the raw-query runner\<close>

lemmas raw_msg_eval = raw_msg_def js_String_def js_typeof_def decode_def show_int_def show_nat.simps
  js_add_def to_primitive_def is_string_def

text \<open>
  C4. With the schema as the seeder uses it (no column \<open>fav\<close>) and no
  failing request, \<open>main\<close> of \<open>raw.ts\<close> seeds the table, sends the three
  statements, and prints nothing but the error of the third: SQLite rejects
  \<open>SUM(fav)\<close> when it prepares the statement, \<open>coalesce\<close> does not mask it,
  \<open>query\<close> rejects before \<open>badInt[0].mySum + 99\<close> is ever computed and
  its report is never printed; the query's client stays open.
\<close>

theorem raw_main_rejected:
  assumes "faults_clear w 6" and "schema_ok (db w)" and "\<not> is_column (db w) ''fav''"
  shows "raw_main w =
    (Inr (), w\<lparr>db := (db w)\<lparr>rows := seed_data\<rparr>,
              sent := sent w @ DeleteMany # map Create seed_data
                             @ map QueryRaw [raw_int_stmt, raw_str_stmt, bad_int_stmt],
              clients := Suc (clients w),
              out := out w @ [ErrorLog (DbError (NoSuchColumn ''fav''))]\<rparr>)"
proof -
  have f: "faults_clear w (3 + 3)" using assms(1) by simp
  show ?thesis
    using seed_then [OF f] assms(2,3)
    by (simp add: raw_main_def thenE_run raw_query_no_fav seed_data_sum console_error_run)
qed

theorem raw_main_rejected_witness:
  "faults_clear (fresh_world [] []) 6 \<and> schema_ok (db (fresh_world [] [])) \<and>
   \<not> is_column (db (fresh_world [] [])) ''fav'' \<and>
   out (snd (raw_main (fresh_world [] []))) = [ErrorLog (DbError (NoSuchColumn ''fav''))]"
proof -
  have h: "faults_clear (fresh_world [] []) 6" "schema_ok (db (fresh_world [] []))"
    "\<not> is_column (db (fresh_world [] [])) ''fav''"
    by (simp_all add: fresh_world_def schema_ok_def is_column_def columns_def same_ident_def
        lower_char_def)
  show ?thesis using h raw_main_rejected [OF h] by (simp add: fresh_world_def)
qed

text \<open>
  C5. \<open>coalesce(SUM(age),"")\<close> on a table of 32-bit ages yields one row
  whose \<open>mySum\<close> is the integer sum when some age is present, and otherwise
  the fallback \<open>""\<close>, a string, although the caller declares it a number.
\<close>

theorem raw_int_value:
  assumes "schema_ok d" and "wf_db d" and "length (rows d) < 2 ^ 32"
  shows "run_select d raw_int_stmt =
           Inr [[(''mySum'', case sum_spec (map age (rows d)) of None \<Rightarrow> SText '''' | Some s \<Rightarrow> SInt s)]]"
proof -
  have "list_all opt_i32 (map age (rows d))"
    using assms(2) by (simp add: wf_db_def list_all_iff)
  from sql_sum_spec [OF this] assms(3)
  have "sql_sum (map (sval_of_opt \<circ> age) (rows d)) = Inr (sval_of_opt (sum_spec (map age (rows d))))"
    by simp
  with assms(1) show ?thesis
    by (simp add: run_select_raw_int sval_of_opt_def split: option.splits)
qed

theorem raw_int_value_witness:
  "schema_ok (db (fresh_world [] [])) \<and> wf_db (db (fresh_world [] [])) \<and>
   length (rows (db (fresh_world [] []))) < 2 ^ 32 \<and>
   run_select (db (fresh_world [] [])) raw_int_stmt = Inr [[(''mySum'', SText '''')]]"
proof -
  have h: "schema_ok (db (fresh_world [] []))" "wf_db (db (fresh_world [] []))"
    "length (rows (db (fresh_world [] []))) < 2 ^ 32"
    by (simp_all add: fresh_world_def schema_ok_def wf_db_def)
  show ?thesis using h raw_int_value [OF h] by (simp add: fresh_world_def sum_spec_def)
qed

text \<open>
  C6. \<open>coalesce(SUM(fav),"bad")\<close> on a schema without \<open>fav\<close> is rejected
  by the database with "no such column: fav", on every table, the empty one
  included: the fallback never masks a wrong column.
\<close>

theorem bad_int_rejected:
  assumes "\<not> fault_at w" and "\<not> is_column (db w) ''fav''"
  shows "queryRaw bad_int_stmt w =
           (Inl (DbError (NoSuchColumn ''fav'')), w\<lparr>sent := sent w @ [QueryRaw bad_int_stmt]\<rparr>)"
  using assms by (simp add: queryRaw_run run_select_bad)

theorem bad_int_rejected_witness:
  "\<not> fault_at (fresh_world [] []) \<and> \<not> is_column (db (fresh_world [] [])) ''fav'' \<and>
   fst (queryRaw bad_int_stmt (fresh_world [] [])) = Inl (DbError (NoSuchColumn ''fav''))"
proof -
  have h: "\<not> fault_at (fresh_world [] [])" "\<not> is_column (db (fresh_world [] [])) ''fav''"
    by (simp_all add: fresh_world_def fault_at_def is_column_def columns_def same_ident_def
        lower_char_def)
  show ?thesis using h bad_int_rejected [OF h] by simp
qed

text \<open>
  C7. Where the schema does have a nullable column \<open>fav\<close> (and none named
  \<open>bad\<close>), \<open>coalesce(SUM(fav),"bad")\<close> yields the string \<open>"bad"\<close>, and
  \<open>badInt[0].mySum + 99\<close>, typed \<open>number\<close>, is the string concatenation
  \<open>"bad99"\<close>: no error is raised and the report prints its runtime type
  \<open>string\<close>. After the seeder, the whole report reads as below.
\<close>

theorem raw_main_bad_value:
  assumes "faults_clear w 6" and "schema_ok (db w)" and "is_column (db w) ''fav''"
    and "\<not> is_column (db w) ''bad''"
  shows "raw_main w =
    (Inr (), w\<lparr>db := (db w)\<lparr>rows := seed_data\<rparr>,
              sent := sent w @ DeleteMany # map Create seed_data
                             @ map QueryRaw [raw_int_stmt, raw_str_stmt, bad_int_stmt],
              out := out w @ [Log (newline @ ''  results of RAW queries--------'' @ newline
                @ ''  rawInt: 1 (type: number)'' @ newline
                @ ''  rawStr: 4 (type: string)'' @ newline
                @ ''  badInt: bad (type: string)'' @ newline
                @ ''  badValue:'' @ newline
                @ ''    (typed number, but has type string)'' @ newline
                @ ''    value: bad99'' @ newline
                @ ''  ------------------------------'' @ newline @ ''  '')]\<rparr>)"
proof -
  have f: "faults_clear w (3 + 3)" using assms(1) by simp
  have m: "raw_msg (decode (SInt 1)) (JStr ''4'') (JStr ''bad'') (js_add (JStr ''bad'') (JNum 99)) =
      newline @ ''  results of RAW queries--------'' @ newline
      @ ''  rawInt: 1 (type: number)'' @ newline
      @ ''  rawStr: 4 (type: string)'' @ newline
      @ ''  badInt: bad (type: string)'' @ newline
      @ ''  badValue:'' @ newline
      @ ''    (typed number, but has type string)'' @ newline
      @ ''    value: bad99'' @ newline
      @ ''  ------------------------------'' @ newline @ ''  ''"
    by (simp add: raw_msg_eval)
  show ?thesis
    using seed_then [OF f] assms(2-4)
    by (simp add: raw_main_def thenE_run raw_query_fav seed_data_sum m)
qed

theorem raw_main_bad_value_witness:
  "faults_clear (fresh_world [''fav''] []) 6 \<and> schema_ok (db (fresh_world [''fav''] [])) \<and>
   is_column (db (fresh_world [''fav''] [])) ''fav'' \<and>
   \<not> is_column (db (fresh_world [''fav''] [])) ''bad'' \<and>
   clients (snd (raw_main (fresh_world [''fav''] []))) = 0"
proof -
  have h: "faults_clear (fresh_world [''fav''] []) 6" "schema_ok (db (fresh_world [''fav''] []))"
    "is_column (db (fresh_world [''fav''] [])) ''fav''"
    "\<not> is_column (db (fresh_world [''fav''] [])) ''bad''"
    by (simp_all add: fresh_world_def schema_ok_def prisma_ident_def is_letter_def is_digit_def
        is_column_def columns_def same_ident_def lower_char_def)
  show ?thesis using h raw_main_bad_value [OF h] by (simp add: fresh_world_def)
qed

text \<open>
  C16. For a statement with an aggregate, such as the runner's first and
  third, \<open>rows[0].mySum\<close> on a result the database returned never throws
  a \<open>TypeError\<close>: the result has exactly one row, whatever the table.
\<close>

theorem agg_first_row_defined:
  assumes "has_agg (sel q)" and "queryRaw q w = (Inr rs, w')"
  shows "\<exists>v. my_sum rs w' = (Inr v, w')"
proof -
  from assms(2) obtain t where t: "run_select (db w) q = Inr t" and rs: "rs = map row_obj t"
    by (auto simp: queryRaw_run Let_def split: if_splits sum.splits)
  from agg_one_row [OF assms(1) t] obtain r where "t = [r]" by (cases t) auto
  with rs show ?thesis by (simp add: my_sum_def js_index_def row_obj_def run_simps js_get_def)
qed

theorem agg_first_row_defined_witness:
  "has_agg (sel raw_int_stmt) \<and>
   queryRaw raw_int_stmt (fresh_world [] []) =
     (Inr [JObj [(''mySum'', JStr '''')]], snd (queryRaw raw_int_stmt (fresh_world [] []))) \<and>
   my_sum [JObj [(''mySum'', JStr '''')]] (snd (queryRaw raw_int_stmt (fresh_world [] []))) =
     (Inr (JStr ''''), snd (queryRaw raw_int_stmt (fresh_world [] [])))"
proof -
  have h: "has_agg (sel raw_int_stmt)" by (simp add: raw_int_stmt_def)
  have q: "queryRaw raw_int_stmt (fresh_world [] []) =
     (Inr [JObj [(''mySum'', JStr '''')]], snd (queryRaw raw_int_stmt (fresh_world [] [])))"
    by (simp add: queryRaw_run fresh_world_def fault_at_def run_select_raw_int schema_ok_def
        sql_sum_def row_obj_def decode_def)
  from agg_first_row_defined [OF h q] show ?thesis
    using h q by (simp add: my_sum_def js_index_def run_simps js_get_def)
qed

section \<open>The raw sum against the aggregate\<close>

text \<open>
  C20. The raw statement \<open>coalesce(SUM(age),"")\<close> computes what Prisma's
  aggregate computes, on every table of the schema: the same sum under the
  alias \<open>mySum\<close>, NULL replaced by the empty string, and the same error
  when the sum fails.
\<close>

theorem raw_sum_matches_aggregate:
  "schema_ok d \<Longrightarrow>
   run_select d raw_int_stmt =
     map_sum id (map (map (\<lambda>(_, v). (''mySum'', if v = SNull then SText '''' else v))))
       (run_select d agg_sum_age_stmt)"
  by (cases "sql_sum (map (sval_of_opt \<circ> age) (rows d))") (simp_all add: run_select_raw_int run_select_agg_sum_age)

theorem raw_sum_matches_aggregate_witness:
  "schema_ok \<lparr>rows = seed_data, extra_cols = []\<rparr> \<and>
   run_select \<lparr>rows = seed_data, extra_cols = []\<rparr> raw_int_stmt = Inr [[(''mySum'', SInt 1)]] \<and>
   run_select \<lparr>rows = seed_data, extra_cols = []\<rparr> agg_sum_age_stmt = Inr [[(''_sum_age'', SInt 1)]]"
proof -
  have s: "schema_ok \<lparr>rows = seed_data, extra_cols = []\<rparr>" by (simp add: schema_ok_def)
  have a: "run_select \<lparr>rows = seed_data, extra_cols = []\<rparr> agg_sum_age_stmt = Inr [[(''_sum_age'', SInt 1)]]"
    using seed_data_sum by (simp add: run_select_agg_sum_age)
  show ?thesis using s a raw_sum_matches_aggregate [OF s] by simp
qed

end
