(* ===== verification/Ts_Types.thy ===== *)
theory Ts_Types
  imports Raw_Runner
begin

text \<open>
  The static types the scripts declare, against the values they hold at run
  time. \<open>ty\<close> is the fragment of TypeScript's types the scripts write or
  Prisma generates: \<open>number\<close>, \<open>string\<close>, \<open>null\<close>, unions and object types
  by their members; \<open>T[]\<close> is \<open>has_array_type\<close>. \<open>has_type v t\<close> is
  runtime conformance (\<open>NaN\<close> is a number; an object type asks each member
  it names of the value, as structural typing does; extra members are
  allowed). \<open>QueryIntResult\<close> and \<open>QueryStrResult\<close> are the interfaces of
  \<open>raw.ts\<close>, \<open>agg_result_ty\<close> the type Prisma's generated client gives
  \<open>aggregate({_sum: {age: true}})\<close>. \<open>member_ty\<close> and \<open>ts_add_ty\<close> are the
  checker's typing of a member access and of \<open>+\<close> under \<open>strictNullChecks\<close>:
  a string operand makes a string, two numbers a number, and an operand
  that may be \<open>null\<close> is rejected ("possibly 'null'", the error quoted in
  \<open>orm.ts\<close>). The type arguments of \<open>$queryRaw<T>\<close> are not checked by
  anything: the lemmas below say where they hold.
\<close>

datatype ty = TNumber | TString | TNull | TUnion ty ty | TObj "(string \<times> ty) list"

fun has_type :: "jsval \<Rightarrow> ty \<Rightarrow> bool" where
  "has_type v TNumber = (case v of JNum _ \<Rightarrow> True | JNaN \<Rightarrow> True | _ \<Rightarrow> False)"
| "has_type v TString = (case v of JStr _ \<Rightarrow> True | _ \<Rightarrow> False)"
| "has_type v TNull = (v = JNull)"
| "has_type v (TUnion a b) = (has_type v a \<or> has_type v b)"
| "has_type v (TObj ts) = (case v of
      JObj fs \<Rightarrow> list_all (\<lambda>(k, t). has_type (case map_of fs k of None \<Rightarrow> JUndef | Some x \<Rightarrow> x) t) ts
    | _ \<Rightarrow> False)"

definition has_array_type :: "jsval list \<Rightarrow> ty \<Rightarrow> bool" where
  "has_array_type vs t = list_all (\<lambda>v. has_type v t) vs"

text \<open>\<open>interface QueryIntResult { mySum: number; }\<close>\<close>

definition QueryIntResult :: ty where
  "QueryIntResult = TObj [(''mySum'', TNumber)]"

text \<open>\<open>interface QueryStrResult { mySum: string; }\<close>\<close>

definition QueryStrResult :: ty where
  "QueryStrResult = TObj [(''mySum'', TString)]"

text \<open>\<open>{ _sum: { age: number | null } }\<close>\<close>

definition agg_result_ty :: ty where
  "agg_result_ty = TObj [(''_sum'', TObj [(''age'', TUnion TNumber TNull)])]"

definition member_ty :: "ty \<Rightarrow> string \<Rightarrow> ty option" where
  "member_ty t k = (case t of TObj ts \<Rightarrow> map_of ts k | _ \<Rightarrow> None)"

definition ts_add_ty :: "ty \<Rightarrow> ty \<Rightarrow> ty option" where
  "ts_add_ty a b = (if a = TString \<or> b = TString then Some TString
                    else if a = TNumber \<and> b = TNumber then Some TNumber else None)"

text \<open>The checker's type of the right-hand side of
  \<open>const badValue: number = badInt[0].mySum + 99\<close>.\<close>

definition bad_value_static_ty :: "ty option" where
  "bad_value_static_ty = Option.bind (member_ty QueryIntResult ''mySum'') (\<lambda>t. ts_add_ty t TNumber)"

section \<open>Lemmas\<close>

lemma has_type_decode_sum:
  "sql_sum (map (sval_of_opt \<circ> age) rs) = Inr v \<Longrightarrow> has_type (decode v) (TUnion TNumber TNull)"
  using sql_sum_ages [of rs v] by (cases v) (auto simp: decode_def)

lemma queryRaw_raw_int:
  assumes "queryRaw raw_int_stmt w = (Inr rs, w')" and "schema_ok (db w)"
  obtains v where "sql_sum (map (sval_of_opt \<circ> age) (rows (db w))) = Inr v"
    and "rs = [row_obj [(''mySum'', if v = SNull then SText '''' else v)]]"
proof -
  obtain t where t: "run_select (db w) raw_int_stmt = Inr t" and rs: "rs = map row_obj t"
    using queryRaw_Inr [OF assms(1)] by blast
  show ?thesis
  proof (cases "sql_sum (map (sval_of_opt \<circ> age) (rows (db w)))")
    case (Inl e)
    then show ?thesis using t run_select_raw_int [OF assms(2)] by simp
  next
    case (Inr v)
    then show ?thesis using t rs run_select_raw_int [OF assms(2)] by (intro that [of v]) auto
  qed
qed

lemma queryRaw_bad_int:
  assumes "queryRaw bad_int_stmt w = (Inr rs, w')" and "\<not> is_column (db w) ''bad''"
  shows "rs = [row_obj [(''mySum'', SText ''bad'')]]"
proof -
  obtain t where t: "run_select (db w) bad_int_stmt = Inr t" and rs: "rs = map row_obj t"
    using queryRaw_Inr [OF assms(1)] by blast
  have "is_column (db w) ''fav''" using t run_select_bad by (cases "is_column (db w) ''fav''") auto
  then show ?thesis using t rs run_select_bad_fav [OF _ assms(2)] by auto
qed

section \<open>The declared types against the runtime values\<close>

text \<open>
  C17. Prisma's typed aggregate API is sound: whenever
  \<open>aggregate({_sum: {age: true}})\<close> resolves, on any table, its value has
  the generated type \<open>{_sum: {age: number | null}}\<close>.
\<close>

theorem aggregate_result_typed:
  assumes "aggregate_sum_age w = (Inr r, w')"
  shows "has_type r agg_result_ty"
proof -
  obtain v where v: "sql_sum (map (sval_of_opt \<circ> age) (rows (db w))) = Inr v"
    and r: "r = sum_result v"
    using aggregate_sum_age_Inr [OF assms] by blast
  show ?thesis
    using has_type_decode_sum [OF v] by (simp add: r agg_result_ty_def sum_result_def)
qed

theorem aggregate_result_typed_witness:
  "aggregate_sum_age (fresh_world [] []) = (Inr (sum_result SNull), snd (aggregate_sum_age (fresh_world [] []))) \<and>
   has_type (sum_result SNull) agg_result_ty"
proof -
  have h: "aggregate_sum_age (fresh_world [] []) = (Inr (sum_result SNull), snd (aggregate_sum_age (fresh_world [] [])))"
    by (simp add: aggregate_sum_age_run fresh_world_def fault_at_def sql_sum_def)
  show ?thesis using h aggregate_result_typed [OF h] by simp
qed

text \<open>
  C18. The declared row type \<open>QueryIntResult[]\<close> of the first raw query
  holds exactly when some row has an age: on an empty or all-NULL table the
  \<open>coalesce\<close> fallback makes \<open>mySum\<close> the string \<open>""\<close>, though it is typed
  \<open>number\<close>.
\<close>

theorem raw_int_typed_iff:
  assumes "queryRaw raw_int_stmt w = (Inr rs, w')" and "schema_ok (db w)"
  shows "has_array_type rs QueryIntResult \<longleftrightarrow> \<not> list_all (\<lambda>r. age r = None) (rows (db w))"
proof -
  obtain v where v: "sql_sum (map (sval_of_opt \<circ> age) (rows (db w))) = Inr v"
    and rs: "rs = [row_obj [(''mySum'', if v = SNull then SText '''' else v)]]"
    using queryRaw_raw_int [OF assms] by blast
  show ?thesis
    using sql_sum_ages [OF v] by (cases v) (auto simp: rs has_array_type_def QueryIntResult_def decode_def row_obj_def)
qed

theorem raw_int_typed_iff_witness:
  "queryRaw raw_int_stmt (fresh_world [] []) =
     (Inr [row_obj [(''mySum'', SText '''')]], snd (queryRaw raw_int_stmt (fresh_world [] []))) \<and>
   schema_ok (db (fresh_world [] [])) \<and>
   \<not> has_array_type [row_obj [(''mySum'', SText '''')]] QueryIntResult"
proof -
  have s: "schema_ok (db (fresh_world [] []))" by (simp add: fresh_world_def schema_ok_def)
  have h: "queryRaw raw_int_stmt (fresh_world [] []) =
     (Inr [row_obj [(''mySum'', SText '''')]], snd (queryRaw raw_int_stmt (fresh_world [] [])))"
    using run_select_raw_int [OF s]
    by (simp add: queryRaw_run fault_at_def sql_sum_def) (simp add: fresh_world_def)
  show ?thesis using h s raw_int_typed_iff [OF h s] by (simp add: fresh_world_def)
qed

text \<open>
  C19. The silent type error of \<open>raw.ts\<close>: the checker types
  \<open>badInt[0].mySum + 99\<close> as \<open>number\<close>, but whenever the third raw query
  resolves (and the schema has no column \<open>bad\<close>) its rows do not have the
  declared type, \<open>mySum\<close> reads without error, and the sum is not a number.
\<close>

theorem bad_value_mistyped:
  assumes "queryRaw bad_int_stmt w = (Inr rs, w')" and "\<not> is_column (db w) ''bad''"
  shows "bad_value_static_ty = Some TNumber \<and> \<not> has_array_type rs QueryIntResult \<and>
         (\<exists>b. my_sum rs w' = (Inr b, w') \<and> \<not> has_type (js_add b (JNum 99)) TNumber)"
proof -
  have rs: "rs = [row_obj [(''mySum'', SText ''bad'')]]" by (rule queryRaw_bad_int [OF assms])
  have "my_sum rs w' = (Inr (JStr ''bad''), w')" by (simp add: rs my_sum_row decode_def)
  moreover have "\<not> has_type (js_add (JStr ''bad'') (JNum 99)) TNumber"
    by (simp add: js_add_def to_primitive_def is_string_def)
  ultimately show ?thesis
    by (auto simp: rs bad_value_static_ty_def member_ty_def QueryIntResult_def ts_add_ty_def
        has_array_type_def row_obj_def decode_def)
qed

theorem bad_value_mistyped_witness:
  "queryRaw bad_int_stmt (fresh_world [''fav''] []) =
     (Inr [row_obj [(''mySum'', SText ''bad'')]], snd (queryRaw bad_int_stmt (fresh_world [''fav''] []))) \<and>
   \<not> is_column (db (fresh_world [''fav''] [])) ''bad'' \<and>
   bad_value_static_ty = Some TNumber"
proof -
  have c: "is_column (db (fresh_world [''fav''] [])) ''fav''" "\<not> is_column (db (fresh_world [''fav''] [])) ''bad''"
    by (simp_all add: fresh_world_def is_column_def columns_def same_ident_def lower_char_def)
  have h: "queryRaw bad_int_stmt (fresh_world [''fav''] []) =
     (Inr [row_obj [(''mySum'', SText ''bad'')]], snd (queryRaw bad_int_stmt (fresh_world [''fav''] [])))"
    using run_select_bad_fav [OF c] by (simp add: queryRaw_run fault_at_def) (simp add: fresh_world_def)
  show ?thesis using h c(2) bad_value_mistyped [OF h c(2)] by simp
qed

end
