(* ===== verification/Spec2Isabelle.thy ===== *)
theory Spec2Isabelle
  imports Ts_Types
begin

text \<open>
  A verification development for the three TypeScript scripts of the
  repository: \<open>src/seed.ts\<close>, a seeder that replaces the rows of the table
  \<open>simple\<close>, and \<open>src/orm.ts\<close> and \<open>src/raw.ts\<close>, two runners that call it
  and then query the table, one through Prisma's typed aggregate API and one
  through raw SQL, printing what came back with its runtime type.

  \<^bold>\<open>How the parts interact.\<close> Each runner's \<open>main\<close> calls \<open>seed()\<close>, logs
  and swallows its rejection, then calls its own \<open>query()\<close> and logs and
  swallows that rejection too. Each of the three functions creates its own
  \<open>PrismaClient\<close> and reaches the database only through it; nothing else is
  shared but the table. A run of a script is a sequence of client requests
  against one database, interleaved with console output; runs of the
  scripts follow one another on the same database (\<open>runs\<close> below).

  \<^bold>\<open>Theories and how they correspond to the code.\<close>
  \<^item> \<open>Prelude\<close>: asynchronous code as a state-passing function whose outcome
    is \<open>Inl\<close> a rejection or \<open>Inr\<close> a value: \<open>bindE\<close> is \<open>await\<close> and the
    rest of the body, \<open>catchE\<close> is \<open>.catch\<close>, \<open>thenE\<close> sequencing; the
    collection \<open>keeps_intros\<close> lifts a state property from steps to
    programs. Integer ranges (\<open>in_i32\<close> for Prisma's \<open>Int\<close>, \<open>in_i64\<close> for
    SQLite, \<open>safe_int\<close> for a double) and decimal printing and parsing.
  \<^item> \<open>Database\<close>: SQLite and the Prisma schema, which are not in the
    repository and are modelled from the spec's external interfaces: the row
    record \<open>simple\<close> (\<open>name\<close>, nullable \<open>age\<close>), the table and its schema
    (\<open>db\<close>, with the schema's further nullable columns as \<open>extra_cols\<close>),
    SQL values, the expressions the scripts' SQL uses, \<open>sql_sum\<close>
    (\<open>SUM\<close>), \<open>run_select\<close> (prepare-time name resolution, then
    evaluation, with SQLite's reading of an unknown double-quoted name as a
    string), the request datatype \<open>req\<close> and the database's step \<open>serve\<close>.
    \<open>sum_spec\<close> is the spec's AggregateResult, and \<open>sql_sum_spec\<close> shows
    \<open>SUM\<close> implements it.
  \<^item> \<open>Js_Values\<close>: the JavaScript the scripts apply to results: \<open>typeof\<close>
    (\<open>js_typeof\<close>), template substitution (\<open>js_String\<close>), \<open>Number\<close>,
    \<open>+\<close> (\<open>js_add\<close>), \<open>JSON.stringify\<close>, \<open>rows[0]\<close> and \<open>.mySum\<close>.
  \<^item> \<open>Client\<close>: the world of a script (the database, a fault schedule saying
    which requests' connections fail, the requests sent in order, the count
    of clients not yet disconnected, the console) and the Prisma calls of
    the scripts (\<open>new_PrismaClient\<close>, \<open>deleteMany\<close>, \<open>create\<close> with its
    32-bit validation, \<open>aggregate_sum_age\<close>, \<open>queryRaw\<close>, \<open>disconnect\<close>,
    \<open>console_log\<close>, \<open>console_error\<close>), each a request through \<open>request\<close>;
    one run equation per operation (collection \<open>run_simps\<close>).
  \<^item> \<open>Seed\<close>: \<open>seed.ts\<close>: \<open>seed_data\<close> (\<open>data\<close>), the awaited loop
    \<open>create_each\<close>, and \<open>seed\<close>.
  \<^item> \<open>Orm_Runner\<close>: \<open>orm.ts\<close>: \<open>orm_query\<close> (\<open>query\<close>), its template
    \<open>orm_msg\<close>, and \<open>orm_main\<close> (\<open>main\<close>).
  \<^item> \<open>Raw_Runner\<close>: \<open>raw.ts\<close>: the three statements as SQLite parses them
    (\<open>raw_int_stmt\<close>, \<open>raw_str_stmt\<close>, \<open>bad_int_stmt\<close>), \<open>my_sum\<close>
    (\<open>rows[0].mySum\<close>), \<open>raw_query\<close> with its template \<open>raw_msg\<close>, and
    \<open>raw_main\<close>.
  \<^item> \<open>Ts_Types\<close>: the static types: the interfaces \<open>QueryIntResult\<close> and
    \<open>QueryStrResult\<close> of \<open>raw.ts\<close>, the type Prisma generates for the
    aggregate (\<open>agg_result_ty\<close>), the checker's typing of the annotated lines
    \<open>goodValue\<close> (\<open>orm.ts\<close> line 21) and \<open>badValue\<close> (\<open>raw.ts\<close> line 27)
    with \<open>member_ty\<close> and \<open>ts_add_ty\<close>, and \<open>has_type\<close>, a runtime value's
    conformance to a type.
  \<^item> this theory: \<open>runs\<close>, the worlds reached by any sequence of script runs,
    and the properties that span the components.

  \<^bold>\<open>What is proved\<close> (claims C1 to C24, each stated in a text block above
  its theorem). End to end, on a database whose requests do not fail, the ORM
  runner prints exactly the spec's literal report (sum 1, \<open>goodValue\<close> 100)
  and the raw runner prints nothing but SQLite's "no such column: fav" error,
  its report never reached; with a schema that has a nullable \<open>fav\<close> the raw
  report shows \<open>badValue\<close> as the string \<open>"bad99"\<close>. The aggregate refines
  the abstract AggregateResult at the SQL level, in the printed report and in
  \<open>JSON.stringify(result)\<close>, absence coerced to 0 in \<open>goodValue\<close>; it fails
  with the overflow error exactly when a running sum of the ages leaves 64
  bits. The seeder replaces the table, or on failure leaves the old table or
  a prefix of the data and leaks its client; it fails only through the
  connection, as its rows pass Prisma's validation; its loop stops at the
  first failing row (termination). \<open>main\<close> never rejects and always runs
  the query, also on a partly seeded table; the queries are read-only; the
  raw statements' values; against the static types, the typed aggregate API
  is sound on every table, while the raw queries' type arguments are not:
  \<open>QueryIntResult[]\<close> holds for \<open>rawInt\<close> exactly when some age is present,
  never for \<open>badInt\<close>, whose \<open>+ 99\<close> the checker types \<open>number\<close> while its
  value is a string. The raw sum is the aggregate's sum with NULL replaced
  by \<open>""\<close> (equivalence); every run of a \<open>main\<close> ends with one console line
  for the query, whatever fails; and over any sequence of runs the clients
  left open are exactly the errors logged (a leak per failed phase: none of
  the three functions disconnects on its error path).

  \<^bold>\<open>Bounds.\<close> Fewer than \<open>2^32\<close> rows of 32-bit ages keep every partial
  sum below \<open>(2^32 - 1) * 2^31 < 2^63\<close>, so \<open>SUM\<close> never overflows there;
  fewer than \<open>2^21\<close> rows keep the sum and \<open>goodValue\<close> below \<open>2^53\<close>, where
  a double is exact. JavaScript numbers are modelled as exact integers, which
  is the script's arithmetic only there: every claim about a number the
  script prints (C1, C2, C7, C11, C23) is stated on such tables, and C2 and C23
  prove the printed numbers within \<open>2^53\<close>; beyond it the model would print
  the exact sum where the script prints a rounded double. Faults are a finite schedule of request positions; no fuel is
  needed, as every loop of the scripts runs over a fixed list: the one loop,
  \<open>for (const simp of data)\<close>, is the structural recursion
  \<open>create_each\<close>, so no script can fail to terminate; what is stated of it
  is where it stops and how many iterations it runs.

  \<^bold>\<open>Not modelled.\<close> REAL values and SQL beyond the scripts' statements;
  non-integer JavaScript numbers and \<open>Number\<close> on such strings; the Prisma
  schema's id column; connection pooling, the timing of the un-awaited
  \<open>$disconnect()\<close> (taken to act at once: it only closes its own client)
  and process exit (only the count of open clients is kept); Node's
  rendering of an error by \<open>console.error\<close> (the model keeps the error
  value); of TypeScript's checker only the typing of
  member access and \<open>+\<close> the annotated lines use (inference, generics and
  the other operators are not modelled; the checker is not part of the
  repository and is modelled from its documented rules); the
  commented-out lines 16 and 17 of \<open>orm.ts\<close>, which are not code.
  Assumed and not checked: Prisma decodes a raw SQLite integer to a
  JavaScript number (some Prisma versions return a BigInt; the repository
  does not pin the version); every column of the table other than
  \<open>name\<close> and \<open>age\<close> is nullable without a default, so it is NULL in every
  row the seeder writes. SQLite's \<open>SUM\<close>, the SQL Prisma generates and the
  JavaScript operators are models of the engine, the library and the
  runtime, not of repository code: the map marks them as modelled from the
  spec.
\<close>

section \<open>Sequences of script runs\<close>

text \<open>The worlds reachable from \<open>w0\<close> by running the two scripts any number
  of times, in any order, each run starting where the previous one ended:
  the one thing the scripts share is the database.\<close>

inductive runs :: "world \<Rightarrow> world \<Rightarrow> bool" where
  start: "runs w0 w0"
| orm: "runs w0 w \<Longrightarrow> runs w0 (snd (orm_main w))"
| raw: "runs w0 w \<Longrightarrow> runs w0 (snd (raw_main w))"

text \<open>What each query phase does to the console and to the open clients:
  it fails having printed nothing and leaving its client open, or it
  succeeds having printed one report and disconnected.\<close>

definition query_phase_ok :: "unit prog \<Rightarrow> bool" where
  "query_phase_ok q \<longleftrightarrow> (\<forall>w r w'. q w = (r, w') \<longrightarrow>
     (isl r \<and> out w' = out w \<and> clients w' = Suc (clients w)) \<or>
     (r = Inr () \<and> clients w' = clients w \<and> (\<exists>l. out w' = out w @ [Log l])))"

text \<open>
  C14. Both query phases are read-only: whatever they send and however it
  ends, \<open>orm_query\<close> and \<open>raw_query\<close> leave the database as they found it.
\<close>

theorem queries_read_only: "db (snd (orm_query w)) = db w \<and> db (snd (raw_query w)) = db w"
  using keeps_orm_query [of "\<lambda>d. d = db w"] keeps_raw_query [of "\<lambda>d. d = db w"]
  by (simp add: keeps_def)

section \<open>What a run prints and which clients it leaves open\<close>

lemma orm_query_phase: "query_phase_ok orm_query"
  unfolding query_phase_ok_def using orm_query_effect by blast

lemma raw_query_phase: "query_phase_ok raw_query"
  unfolding query_phase_ok_def using raw_query_effect by blast

text \<open>The seeder's phase of \<open>main\<close> never rejects, prints at most its error,
  and leaves its client open exactly when it prints one.\<close>

lemma catch_seed_effect:
  "\<exists>w2. catchE seed console_error w = (Inr (), w2) \<and>
        (\<exists>ls. out w2 = out w @ ls \<and> (ls = [] \<or> (\<exists>e. ls = [ErrorLog e]))) \<and>
        clients w2 + count_errors (out w) = clients w + count_errors (out w2)"
proof -
  obtain r w1 where s: "seed w = (r, w1)" by fastforce
  have o: "out w1 = out w" using seed_out [of w] s by simp
  show ?thesis
  proof (cases r)
    case (Inl e)
    then have "clients w1 = Suc (clients w)" using seed_outcome [OF s] by auto
    then show ?thesis using s o Inl by (simp add: catchE_def console_error_run)
  next
    case (Inr u)
    then have "clients w1 = clients w" using seed_outcome [OF s] by auto
    then show ?thesis using s o Inr by (simp add: catchE_def)
  qed
qed

lemma catch_query_effect:
  assumes "query_phase_ok q"
  shows "(\<exists>l. out (snd (catchE q console_error w)) = out w @ [l]) \<and>
         clients (snd (catchE q console_error w)) + count_errors (out w) =
         clients w + count_errors (out (snd (catchE q console_error w)))"
proof -
  obtain r w1 where qw: "q w = (r, w1)" by fastforce
  have "(isl r \<and> out w1 = out w \<and> clients w1 = Suc (clients w)) \<or>
        (r = Inr () \<and> clients w1 = clients w \<and> (\<exists>l. out w1 = out w @ [Log l]))"
    using assms qw unfolding query_phase_ok_def by blast
  then show ?thesis by (auto simp: catchE_def console_error_run qw split: sum.splits)
qed

lemma main_effect:
  assumes "query_phase_ok q"
  defines "m \<equiv> thenE (catchE seed console_error) (catchE q console_error)"
  shows "(\<exists>ls l. out (snd (m w)) = out w @ ls @ [l] \<and> (ls = [] \<or> (\<exists>e. ls = [ErrorLog e]))) \<and>
         clients (snd (m w)) + count_errors (out w) = clients w + count_errors (out (snd (m w)))"
proof -
  obtain w2 where s: "catchE seed console_error w = (Inr (), w2)"
    and ls: "\<exists>ls. out w2 = out w @ ls \<and> (ls = [] \<or> (\<exists>e. ls = [ErrorLog e]))"
    and c: "clients w2 + count_errors (out w) = clients w + count_errors (out w2)"
    using catch_seed_effect by blast
  have m: "m w = catchE q console_error w2" by (simp add: m_def thenE_run s)
  show ?thesis using catch_query_effect [OF assms(1), of w2] ls c unfolding m by auto
qed

text \<open>
  C21. Every run of either script ends with an outcome on the console,
  whatever fails: \<open>main\<close> appends at most the seeder's error and then
  exactly one line for the query, its report or its error, and nothing
  printed before is lost.
\<close>

theorem main_always_reports:
  "(\<exists>ls l. out (snd (orm_main w)) = out w @ ls @ [l] \<and> (ls = [] \<or> (\<exists>e. ls = [ErrorLog e]))) \<and>
   (\<exists>ls l. out (snd (raw_main w)) = out w @ ls @ [l] \<and> (ls = [] \<or> (\<exists>e. ls = [ErrorLog e])))"
  using main_effect [OF orm_query_phase, of w] main_effect [OF raw_query_phase, of w]
  unfolding orm_main_def raw_main_def by blast

text \<open>
  C22. The clients the scripts leave open are exactly their logged
  failures: over any sequence of runs, under any fault schedule, the number
  of \<open>PrismaClient\<close>s not disconnected grows by exactly the number of errors
  printed, because each of \<open>seed\<close> and both \<open>query\<close>s disconnects on its
  success path only and \<open>main\<close> logs each rejection once.
\<close>

theorem runs_clients_errors:
  "runs w0 w \<Longrightarrow> clients w + count_errors (out w0) = clients w0 + count_errors (out w)"
proof (induction rule: runs.induct)
  case (start w0)
  then show ?case by simp
next
  case (orm w0 w)
  then show ?case using main_effect [OF orm_query_phase, of w] unfolding orm_main_def by arith
next
  case (raw w0 w)
  then show ?case using main_effect [OF raw_query_phase, of w] unfolding raw_main_def by arith
qed

theorem runs_clients_errors_witness:
  "runs (fresh_world [] [0]) (snd (orm_main (fresh_world [] [0]))) \<and>
   clients (snd (orm_main (fresh_world [] [0]))) = count_errors (out (snd (orm_main (fresh_world [] [0]))))"
proof -
  have r: "runs (fresh_world [] [0]) (snd (orm_main (fresh_world [] [0])))"
    by (intro runs.orm runs.start)
  show ?thesis using r runs_clients_errors [OF r] by (simp add: fresh_world_def)
qed

end
